theory Spec2Isabelle
  imports Complex_Main
begin

section \<open>The weather handler of api/weather.js\<close>

text \<open>
  The handler reads one document from the weather provider, scores the current
  observation and the next hours, searches the forecast for a calm period and
  assembles one response. The embedding follows the source function by function.

  Numbers. JavaScript numbers are modelled by their mathematical values:
  temperatures and wind speeds are \<^typ>\<open>real\<close>, epoch seconds, the zone offset,
  millisecond time values, wind-force classes and scores are \<^typ>\<open>int\<close>.
  \<open>Math.round\<close> rounds to the nearest integer with halves going up, which is
  \<^const>\<open>round\<close> on \<^typ>\<open>real\<close>; \<open>Math.min\<close> on two integers is \<^const>\<open>min\<close>.
  The rounding error of double arithmetic, which only the division \<open>mph / 5\<close> could
  show, is not modelled.
\<close>

subsection \<open>Scoring functions (lines 21 to 48)\<close>

definition getTempScore :: "real \<Rightarrow> int" where
  "getTempScore temp =
     (if temp \<ge> 75 \<and> temp \<le> 85 then 5
      else if (temp \<ge> 70 \<and> temp < 75) \<or> (temp > 85 \<and> temp \<le> 90) then 4
      else if (temp \<ge> 65 \<and> temp < 70) \<or> (temp > 90 \<and> temp \<le> 95) then 3
      else if (temp \<ge> 60 \<and> temp < 65) \<or> (temp > 95 \<and> temp \<le> 100) then 2
      else 1)"

definition getWindScore :: "int \<Rightarrow> int" where
  "getWindScore windBFT =
     (if windBFT < 3 then 5
      else if windBFT = 3 then 3
      else if windBFT = 4 then 2
      else 1)"

definition convertMphToBft :: "real \<Rightarrow> int" where
  "convertMphToBft mph =
     (if mph < 1 then 0
      else if mph < 4 then 1
      else if mph < 8 then 2
      else if mph < 13 then 3
      else if mph < 18 then 4
      else if mph < 24 then 5
      else if mph < 31 then 6
      else if mph < 38 then 7
      else if mph < 46 then 8
      else round (mph / 5))"

definition getOverallScore :: "real \<Rightarrow> int \<Rightarrow> int" where
  "getOverallScore temp windBFT = min (getTempScore temp) (getWindScore windBFT)"

subsection \<open>Documents with absent numeric members\<close>

text \<open>
  The provider's contract gives every record its numbers, but a JSON document may lack
  a numeric member. Reading an absent member yields \<open>undefined\<close>, arithmetic on it yields
  \<open>NaN\<close>, every comparison with \<open>NaN\<close> is false, a \<open>Date\<close> made from \<open>NaN\<close> is invalid and
  its getters return \<open>NaN\<close>; \<open>JSON.stringify\<close> writes \<open>NaN\<close> as \<open>null\<close> and leaves out a
  member that is \<open>undefined\<close>. For such documents every numeric member, and every
  number computed from one, is an option: \<open>None\<close> is \<open>undefined\<close> or \<open>NaN\<close>. A member that is present is a JSON number; members of
  another JSON type are outside the model. These records are declared first, so that
  the unqualified field names below denote the records of the contract.
\<close>

text \<open>
  With \<open>NaN\<close> every comparison of the scorers is false, so the temperature scorer and the
  wind scorer fall through to 1, and the classifier falls through to
  \<open>Math.round(NaN / 5)\<close>, which is \<open>NaN\<close>.
\<close>

definition getTempScoreN :: "real option \<Rightarrow> int" where
  "getTempScoreN temp = (case temp of None \<Rightarrow> 1 | Some t \<Rightarrow> getTempScore t)"

definition getWindScoreN :: "int option \<Rightarrow> int" where
  "getWindScoreN windBFT = (case windBFT of None \<Rightarrow> 1 | Some c \<Rightarrow> getWindScore c)"

definition getOverallScoreN :: "real option \<Rightarrow> int option \<Rightarrow> int" where
  "getOverallScoreN temp windBFT = min (getTempScoreN temp) (getWindScoreN windBFT)"

definition convertMphToBftN :: "real option \<Rightarrow> int option" where
  "convertMphToBftN mph = (case mph of None \<Rightarrow> None | Some v \<Rightarrow> Some (convertMphToBft v))"

text \<open>\<open>Math.round\<close>, and \<open>(dt + timezone_offset) * 1000\<close>, on numbers that may be \<open>NaN\<close>.\<close>

definition roundN :: "real option \<Rightarrow> int option" where
  "roundN x = (case x of None \<Rightarrow> None | Some v \<Rightarrow> Some (round v))"

definition localMillis :: "int option \<Rightarrow> int option \<Rightarrow> int option" where
  "localMillis d off =
     (case d of
        None \<Rightarrow> None
      | Some d' \<Rightarrow> (case off of None \<Rightarrow> None | Some off' \<Rightarrow> Some ((d' + off') * 1000)))"

record loose_reading =
  dt :: "int option"
  feels_like :: "real option"
  wind_speed :: "real option"

record loose_document =
  current :: "loose_reading option"
  hourly :: "loose_reading list option"
  timezone_offset :: "int option"

record loose_current_out =
  feels_like :: "int option"
  wind_speed_mph :: "real option"
  wind_speed_bft :: "int option"
  overall_score :: int
  wind_score :: int
  temp_score :: int
  updated_at :: string

record loose_chart_out =
  overall :: "(int option \<times> int) list"
  wind :: "(int option \<times> int) list"
  temp :: "(int option \<times> int) list"

record loose_output =
  current :: loose_current_out
  chart_data :: loose_chart_out
  calm_period :: string

subsection \<open>The provider's document and the handler's environment\<close>

text \<open>
  One record of the provider's document (the \<open>current\<close> member and every element of
  \<open>hourly\<close>): epoch seconds, the temperature as felt in degrees Fahrenheit and the wind
  speed in mph.
\<close>

record reading =
  dt :: int
  feels_like :: real
  wind_speed :: real

text \<open>
  The parsed document of the contract. Reading a member of \<open>undefined\<close> throws a
  TypeError, so the two object members the handler dereferences may be absent (as in
  the provider's error documents, which carry neither); every record that is present
  has all its numbers. The documents that lack numbers are those of the subsection
  above.
\<close>

record document =
  current :: "reading option"
  hourly :: "reading list option"
  timezone_offset :: int

text \<open>
  What \<open>await fetch(url)\<close> followed by \<open>await response.json()\<close> yields: the first
  promise rejects, the second rejects (the body is not JSON), or a document arrives:
  one whose records have all their numbers, or one that may lack some.
\<close>

datatype upstream = FetchRejects | JsonRejects | Json document | JsonLoose loose_document

datatype exn = NetworkError | SyntaxError | TypeError

text \<open>
  The environment of one call: the configured key (\<open>process.env\<close> holds a string or
  nothing), the provider as a function of the requested URL, and the text that
  \<open>formatCentralTime(new Date())\<close> produces from the clock and the zone database,
  neither of which is part of the source.
\<close>

record env =
  OPEN_WEATHER_MAP_API_KEY :: "string option"
  fetch :: "string \<Rightarrow> upstream"
  centralTimeNow :: string

subsection \<open>Dates (the getters and setters the handler uses)\<close>

text \<open>
  Modelled from the spec: the local zone of the host, which the source does not fix.
  The local getters of \<open>Date\<close> add the host's zone adjustment to the time value; the
  spec reads the components of the shifted instant as if the result were UTC, that is
  with adjustment 0. Time values stay within the range in which a \<open>Date\<close> is valid.
\<close>

definition LocalTZA :: int where
  "LocalTZA = 0"

datatype Date = Date (getTime: int)

definition getHours :: "Date \<Rightarrow> int" where
  "getHours d = ((getTime d + LocalTZA) div 3600000) mod 24"

definition getMinutes :: "Date \<Rightarrow> int" where
  "getMinutes d = ((getTime d + LocalTZA) div 60000) mod 60"

text \<open>\<open>setMinutes(0, 0, 0)\<close>: minutes, seconds and milliseconds of the local time set to 0.\<close>

definition setMinutes :: "Date \<Rightarrow> Date" where
  "setMinutes d =
     (let local = getTime d + LocalTZA
      in Date (local - local mod 3600000 - LocalTZA))"

subsection \<open>Number to string, remainder\<close>

fun digitsOf :: "nat \<Rightarrow> string" where
  "digitsOf n =
     (if n < 10 then [char_of (48 + n)]
      else digitsOf (n div 10) @ [char_of (48 + n mod 10)])"

declare digitsOf.simps [simp del]

text \<open>The decimal text of an integer, as string concatenation and template literals give it.\<close>

definition numberToString :: "int \<Rightarrow> string" where
  "numberToString n = (if n < 0 then CHR ''-'' # digitsOf (nat (- n)) else digitsOf (nat n))"

text \<open>The operator \<open>%\<close> on integers: the remainder takes the sign of the dividend.\<close>

definition jsRem :: "int \<Rightarrow> int \<Rightarrow> int" where
  "jsRem a b = sgn a * (\<bar>a\<bar> mod \<bar>b\<bar>)"

subsection \<open>Formatting (lines 118 to 126)\<close>

definition formatTime :: "Date \<Rightarrow> string" where
  "formatTime date =
     (let hours = getHours date;
          minutes = getMinutes date;
          ampm = (if hours \<ge> 12 then ''pm'' else ''am'');
          hours = jsRem hours 12;
          hours = (if hours = 0 then 12 else hours);
          minutesStr = (if minutes < 10 then ''0'' @ numberToString minutes
                        else numberToString minutes)
      in numberToString hours @ '':'' @ minutesStr @ ampm)"

subsection \<open>Chart data (lines 59 to 84)\<close>

type_synonym point = "int \<times> int"

type_synonym series = "point list \<times> point list \<times> point list"

text \<open>The body of the \<open>forEach\<close>: one point pushed on each of the three arrays.\<close>

definition pushHour :: "int \<Rightarrow> reading \<Rightarrow> series \<Rightarrow> series" where
  "pushHour off hourData s =
     (case s of (overallData, windData, tempData) \<Rightarrow>
        let timestamp = (dt hourData + off) * 1000;
            feelsLike = feels_like hourData;
            windMph = wind_speed hourData;
            bft = convertMphToBft windMph;
            tempScore = getTempScore feelsLike;
            windScore = getWindScore bft;
            overallScore = getOverallScore feelsLike bft
        in (overallData @ [(timestamp, overallScore)],
            windData @ [(timestamp, windScore)],
            tempData @ [(timestamp, tempScore)]))"

text \<open>\<open>xs.slice(1, hoursToDisplay + 1)\<close> with \<open>hoursToDisplay = 3\<close>.\<close>

definition hoursToDisplay :: nat where
  "hoursToDisplay = 3"

definition slice1 :: "'a list \<Rightarrow> 'a list" where
  "slice1 xs = take hoursToDisplay (drop 1 xs)"

definition currentTimestamp :: "int \<Rightarrow> reading \<Rightarrow> int" where
  "currentTimestamp off cur = getTime (setMinutes (Date ((dt cur + off) * 1000)))"

definition chartData :: "int \<Rightarrow> reading \<Rightarrow> reading list \<Rightarrow> series" where
  "chartData off cur hs =
     (let currentBft = convertMphToBft (wind_speed cur);
          ts = currentTimestamp off cur
      in fold (pushHour off) (slice1 hs)
           ([(ts, getOverallScore (feels_like cur) currentBft)],
            [(ts, getWindScore currentBft)],
            [(ts, getTempScore (feels_like cur))]))"

subsection \<open>The calm-period loop (lines 89 to 116)\<close>

text \<open>
  The \<open>for\<close> loop with its three variables; \<open>calmStart\<close> is the result, since the loop
  is left by \<open>break\<close> as soon as it is assigned. Reading \<open>wind_speed\<close> of an element
  beyond the array, or \<open>dt\<close> of a \<open>null\<close> candidate, throws a TypeError.
\<close>

function calmLoop ::
  "int \<Rightarrow> reading list \<Rightarrow> nat \<Rightarrow> nat \<Rightarrow> reading option \<Rightarrow> nat \<Rightarrow> exn + int option" where
  "calmLoop off hs forecastLimit i calmCandidate calmCount =
     (if i < forecastLimit then
        (if i < length hs then
           (let hourData = hs ! i;
                bft = convertMphToBft (wind_speed hourData)
            in if bft < 3 then
                 (let calmCandidate' = (if calmCount = 0 then Some hourData else calmCandidate);
                      calmCount' = calmCount + 1
                  in if calmCount' = 8 then
                       (case calmCandidate' of
                          None \<Rightarrow> Inl TypeError
                        | Some c \<Rightarrow>
                            (let candidateTime = Date ((dt c + off) * 1000);
                                 candidateHour = getHours candidateTime
                             in if candidateHour \<ge> 8 \<and> candidateHour < 21 then Inr (Some (dt c))
                                else calmLoop off hs forecastLimit (i + 1) None 0))
                     else calmLoop off hs forecastLimit (i + 1) calmCandidate' calmCount')
               else calmLoop off hs forecastLimit (i + 1) None 0)
         else Inl TypeError)
      else Inr None)"
  by pat_completeness auto
termination
  by (relation "measure (\<lambda>(off, hs, forecastLimit, i, calmCandidate, calmCount). forecastLimit - i)")
    auto

declare calmLoop.simps [simp del]

definition calmFinder :: "int \<Rightarrow> reading list \<Rightarrow> exn + int option" where
  "calmFinder off hs = calmLoop off hs (min 36 (length hs)) 0 None 0"

definition calmPeriodText :: "int \<Rightarrow> int option \<Rightarrow> string" where
  "calmPeriodText off calmStart =
     (case calmStart of
        None \<Rightarrow> ''--''
      | Some start \<Rightarrow> formatTime (Date ((start + off) * 1000)))"

subsection \<open>The response and the handler (lines 3 to 18 and 138 to 171)\<close>

record current_out =
  feels_like :: int
  wind_speed_mph :: real
  wind_speed_bft :: int
  overall_score :: int
  wind_score :: int
  temp_score :: int
  updated_at :: string

record chart_out =
  overall :: "point list"
  wind :: "point list"
  temp :: "point list"

record weather_output =
  current :: current_out
  chart_data :: chart_out
  calm_period :: string

datatype body =
    is_Error: Error string
  | is_Payload: Payload (payload: weather_output)
  | is_LoosePayload: LoosePayload (loose_payload: loose_output)

record response =
  status :: nat
  json :: body

text \<open>What a call did besides answering: the URLs fetched and the errors logged.\<close>

record effects =
  fetched :: "string list"
  logged :: "exn list"

definition url_of :: "string \<Rightarrow> string" where
  "url_of apiKey =
     ''https://api.openweathermap.org/data/3.0/onecall?lat='' @ ''30.5773'' @ ''&lon='' @
     ''-97.8803'' @ ''&exclude=minutely,daily,alerts&units=imperial&appid='' @ apiKey"

text \<open>
  The body of the \<open>try\<close> block after the document has arrived (lines 51 to 164), on a
  document of the contract: \<open>Inl\<close> is the exception thrown, \<open>Inr\<close> the output.
\<close>

definition compute :: "env \<Rightarrow> document \<Rightarrow> exn + weather_output" where
  "compute e data =
     (case document.current data of
        None \<Rightarrow> Inl TypeError
      | Some cur \<Rightarrow>
          (let currentFeelsLike = reading.feels_like cur;
               currentWindMph = wind_speed cur;
               currentBft = convertMphToBft currentWindMph;
               currentOverallScore = getOverallScore currentFeelsLike currentBft;
               currentWindScore = getWindScore currentBft;
               currentTempScore = getTempScore currentFeelsLike
           in case hourly data of
                None \<Rightarrow> Inl TypeError
              | Some hs \<Rightarrow>
                  (case chartData (timezone_offset data) cur hs of
                     (overallData, windData, tempData) \<Rightarrow>
                       (case calmFinder (timezone_offset data) hs of
                          Inl x \<Rightarrow> Inl x
                        | Inr calmStart \<Rightarrow>
                            Inr \<lparr>current =
                                   \<lparr>feels_like = round currentFeelsLike,
                                    wind_speed_mph = currentWindMph,
                                    wind_speed_bft = currentBft,
                                    overall_score = currentOverallScore,
                                    wind_score = currentWindScore,
                                    temp_score = currentTempScore,
                                    updated_at = centralTimeNow e\<rparr>,
                                 chart_data =
                                   \<lparr>overall = overallData, wind = windData,
                                    temp = tempData\<rparr>,
                                 calm_period =
                                   calmPeriodText (timezone_offset data) calmStart\<rparr>))))"

subsection \<open>The same lines on a document with absent numeric members\<close>

text \<open>
  Lines 64 to 66: \<open>setMinutes\<close> leaves an invalid \<open>Date\<close> invalid, and \<open>getTime\<close> of it is
  \<open>NaN\<close>.
\<close>

definition currentTimestampN :: "int option \<Rightarrow> loose_reading \<Rightarrow> int option" where
  "currentTimestampN off cur =
     (case localMillis (loose_reading.dt cur) off of
        None \<Rightarrow> None
      | Some t \<Rightarrow> Some (getTime (setMinutes (Date t))))"

type_synonym loose_series =
  "(int option \<times> int) list \<times> (int option \<times> int) list \<times> (int option \<times> int) list"

definition pushHourN :: "int option \<Rightarrow> loose_reading \<Rightarrow> loose_series \<Rightarrow> loose_series" where
  "pushHourN off hourData s =
     (case s of (overallData, windData, tempData) \<Rightarrow>
        let timestamp = localMillis (loose_reading.dt hourData) off;
            feelsLike = loose_reading.feels_like hourData;
            windMph = loose_reading.wind_speed hourData;
            bft = convertMphToBftN windMph;
            tempScore = getTempScoreN feelsLike;
            windScore = getWindScoreN bft;
            overallScore = getOverallScoreN feelsLike bft
        in (overallData @ [(timestamp, overallScore)],
            windData @ [(timestamp, windScore)],
            tempData @ [(timestamp, tempScore)]))"

definition chartDataN :: "int option \<Rightarrow> loose_reading \<Rightarrow> loose_reading list \<Rightarrow> loose_series" where
  "chartDataN off cur hs =
     (let currentBft = convertMphToBftN (loose_reading.wind_speed cur);
          ts = currentTimestampN off cur
      in fold (pushHourN off) (slice1 hs)
           ([(ts, getOverallScoreN (loose_reading.feels_like cur) currentBft)],
            [(ts, getWindScoreN currentBft)],
            [(ts, getTempScoreN (loose_reading.feels_like cur))]))"

text \<open>
  The calm-period loop: an hour whose class is \<open>NaN\<close> is not below 3, and a candidate
  whose local time is \<open>NaN\<close> has the hour \<open>NaN\<close>, which is not in the window, so that the
  run is reset. \<open>calmStart\<close> is only ever assigned the \<open>dt\<close> of a candidate whose hour
  passed the test, a number.
\<close>

function calmLoopN ::
  "int option \<Rightarrow> loose_reading list \<Rightarrow> nat \<Rightarrow> nat \<Rightarrow> loose_reading option \<Rightarrow> nat \<Rightarrow>
   exn + int option" where
  "calmLoopN off hs forecastLimit i calmCandidate calmCount =
     (if i < forecastLimit then
        (if i < length hs then
           (let hourData = hs ! i;
                bft = convertMphToBftN (loose_reading.wind_speed hourData)
            in if (case bft of None \<Rightarrow> False | Some b \<Rightarrow> b < 3) then
                 (let calmCandidate' = (if calmCount = 0 then Some hourData else calmCandidate);
                      calmCount' = calmCount + 1
                  in if calmCount' = 8 then
                       (case calmCandidate' of
                          None \<Rightarrow> Inl TypeError
                        | Some c \<Rightarrow>
                            (case localMillis (loose_reading.dt c) off of
                               None \<Rightarrow> calmLoopN off hs forecastLimit (i + 1) None 0
                             | Some t \<Rightarrow>
                                 (let candidateTime = Date t;
                                      candidateHour = getHours candidateTime
                                  in if candidateHour \<ge> 8 \<and> candidateHour < 21
                                     then Inr (loose_reading.dt c)
                                     else calmLoopN off hs forecastLimit (i + 1) None 0)))
                     else calmLoopN off hs forecastLimit (i + 1) calmCandidate' calmCount')
               else calmLoopN off hs forecastLimit (i + 1) None 0)
         else Inl TypeError)
      else Inr None)"
  by pat_completeness auto
termination
  by (relation "measure (\<lambda>(off, hs, forecastLimit, i, calmCandidate, calmCount). forecastLimit - i)")
    auto

declare calmLoopN.simps [simp del]

definition calmFinderN :: "int option \<Rightarrow> loose_reading list \<Rightarrow> exn + int option" where
  "calmFinderN off hs = calmLoopN off hs (min 36 (length hs)) 0 None 0"

text \<open>Lines 138 to 142; \<open>formatTime\<close> of an invalid \<open>Date\<close> is the text \<open>NaN:NaNam\<close>.\<close>

definition calmPeriodTextN :: "int option \<Rightarrow> int option \<Rightarrow> string" where
  "calmPeriodTextN off calmStart =
     (case calmStart of
        None \<Rightarrow> ''--''
      | Some start \<Rightarrow>
          (case localMillis (Some start) off of
             None \<Rightarrow> ''NaN:NaNam''
           | Some t \<Rightarrow> formatTime (Date t)))"

definition computeN :: "env \<Rightarrow> loose_document \<Rightarrow> exn + loose_output" where
  "computeN e data =
     (case loose_document.current data of
        None \<Rightarrow> Inl TypeError
      | Some cur \<Rightarrow>
          (let currentFeelsLike = loose_reading.feels_like cur;
               currentWindMph = loose_reading.wind_speed cur;
               currentBft = convertMphToBftN currentWindMph;
               currentOverallScore = getOverallScoreN currentFeelsLike currentBft;
               currentWindScore = getWindScoreN currentBft;
               currentTempScore = getTempScoreN currentFeelsLike
           in case loose_document.hourly data of
                None \<Rightarrow> Inl TypeError
              | Some hs \<Rightarrow>
                  (case chartDataN (loose_document.timezone_offset data) cur hs of
                     (overallData, windData, tempData) \<Rightarrow>
                       (case calmFinderN (loose_document.timezone_offset data) hs of
                          Inl x \<Rightarrow> Inl x
                        | Inr calmStart \<Rightarrow>
                            Inr \<lparr>loose_output.current =
                                   \<lparr>loose_current_out.feels_like = roundN currentFeelsLike,
                                    wind_speed_mph = currentWindMph,
                                    wind_speed_bft = currentBft,
                                    overall_score = currentOverallScore,
                                    wind_score = currentWindScore,
                                    temp_score = currentTempScore,
                                    updated_at = centralTimeNow e\<rparr>,
                                 chart_data =
                                   \<lparr>loose_chart_out.overall = overallData, wind = windData,
                                    temp = tempData\<rparr>,
                                 calm_period =
                                   calmPeriodTextN (loose_document.timezone_offset data)
                                     calmStart\<rparr>))))"

text \<open>
  A document of the contract, and its output, written as a document and an output of
  the wider kind: every number is present.
\<close>

definition loosen_reading :: "reading \<Rightarrow> loose_reading" where
  "loosen_reading r =
     \<lparr>loose_reading.dt = Some (dt r), feels_like = Some (reading.feels_like r),
      wind_speed = Some (wind_speed r)\<rparr>"

definition loosen_document :: "document \<Rightarrow> loose_document" where
  "loosen_document d =
     \<lparr>loose_document.current = map_option loosen_reading (document.current d),
      hourly = map_option (map loosen_reading) (hourly d),
      timezone_offset = Some (timezone_offset d)\<rparr>"

definition loosen_points :: "point list \<Rightarrow> (int option \<times> int) list" where
  "loosen_points ps = map (\<lambda>(t, s). (Some t, s)) ps"

definition loosen_output :: "weather_output \<Rightarrow> loose_output" where
  "loosen_output out =
     \<lparr>loose_output.current =
        \<lparr>loose_current_out.feels_like = Some (current_out.feels_like (weather_output.current out)),
         wind_speed_mph = Some (wind_speed_mph (weather_output.current out)),
         wind_speed_bft = Some (wind_speed_bft (weather_output.current out)),
         overall_score = overall_score (weather_output.current out),
         wind_score = wind_score (weather_output.current out),
         temp_score = temp_score (weather_output.current out),
         updated_at = updated_at (weather_output.current out)\<rparr>,
      chart_data =
        \<lparr>loose_chart_out.overall = loosen_points (overall (chart_data out)),
         wind = loosen_points (wind (chart_data out)),
         temp = loosen_points (temp (chart_data out))\<rparr>,
      calm_period = calm_period out\<rparr>"

subsection \<open>The handler\<close>

text \<open>
  The \<open>try\<close> block (lines 17 to 166): the fetch, the parse, and the lines above on the
  document that arrived. \<open>Inl\<close> is the exception thrown, \<open>Inr\<close> the body sent with
  status 200.
\<close>

definition tryBlock :: "env \<Rightarrow> string \<Rightarrow> exn + body" where
  "tryBlock e url =
     (case fetch e url of
        FetchRejects \<Rightarrow> Inl NetworkError
      | JsonRejects \<Rightarrow> Inl SyntaxError
      | Json data \<Rightarrow>
          (case compute e data of Inl x \<Rightarrow> Inl x | Inr out \<Rightarrow> Inr (Payload out))
      | JsonLoose data \<Rightarrow>
          (case computeN e data of Inl x \<Rightarrow> Inl x | Inr out \<Rightarrow> Inr (LoosePayload out)))"

definition missingKey :: "response \<times> effects" where
  "missingKey = (\<lparr>status = 500, json = Error ''Missing API Key''\<rparr>, \<lparr>fetched = [], logged = []\<rparr>)"

definition handler :: "env \<Rightarrow> response \<times> effects" where
  "handler e =
     (case OPEN_WEATHER_MAP_API_KEY e of
        None \<Rightarrow> missingKey
      | Some apiKey \<Rightarrow>
          if apiKey = [] then missingKey
          else
            (let url = url_of apiKey
             in case tryBlock e url of
                  Inl error \<Rightarrow>
                    (\<lparr>status = 500, json = Error ''Failed to fetch weather data''\<rparr>,
                     \<lparr>fetched = [url], logged = [error]\<rparr>)
                | Inr out \<Rightarrow>
                    (\<lparr>status = 200, json = out\<rparr>,
                     \<lparr>fetched = [url], logged = []\<rparr>)))"

section \<open>The specification's wording, for comparison with the source\<close>

text \<open>
  The local wall-clock hour and minute of an epoch second: the second shifted by the
  zone offset, read as a time of day.
\<close>

definition localHour :: "int \<Rightarrow> int \<Rightarrow> int" where
  "localHour off secs = ((secs + off) div 3600) mod 24"

definition localMinute :: "int \<Rightarrow> int \<Rightarrow> int" where
  "localMinute off secs = ((secs + off) div 60) mod 60"

definition calm :: "reading \<Rightarrow> bool" where
  "calm h = (convertMphToBft (wind_speed h) < 3)"

definition inWindow :: "int \<Rightarrow> reading \<Rightarrow> bool" where
  "inWindow off h = (8 \<le> localHour off (dt h) \<and> localHour off (dt h) < 21)"

text \<open>
  The search policy of the specification over the scanned entries: the first run of 8
  consecutive calm entries is taken; if its first entry lies in the window, that entry's
  \<open>dt\<close> is the result; if not, the whole run is discarded and the search resumes after
  it. Where the next 8 entries are not all calm the search moves on by one entry, and
  with fewer than 8 entries left there is no qualifying window.
\<close>

function spec_calm_search :: "int \<Rightarrow> reading list \<Rightarrow> int option" where
  "spec_calm_search off xs =
     (if length xs < 8 then None
      else if list_all calm (take 8 xs) then
        (if inWindow off (hd xs) then Some (dt (hd xs))
         else spec_calm_search off (drop 8 xs))
      else spec_calm_search off (drop 1 xs))"
  by pat_completeness auto
termination
  by (relation "measure (\<lambda>(off, xs). length xs)") auto

declare spec_calm_search.simps [simp del]

text \<open>
  The 12-hour text \<open>H:MMam/pm\<close> of a local time of day: hour 0 and hour 12 are written
  12, the minutes always take two digits.
\<close>

definition digit :: "int \<Rightarrow> char" where
  "digit k = char_of (48 + k)"

definition spec_clock12 :: "int \<Rightarrow> int \<Rightarrow> string" where
  "spec_clock12 h m =
     (if h mod 12 = 0 then ''12''
      else if h mod 12 < 10 then [digit (h mod 12)]
      else [digit 1, digit (h mod 12 - 10)]) @
     '':'' @ [digit (m div 10), digit (m mod 10)] @ (if h < 12 then ''am'' else ''pm'')"

section \<open>Example inputs\<close>

text \<open>
  A day of 36 hourly records, one per hour from local midnight, windy except for the
  hours 10 to 17; ten calm hours from 22:00 on; eight calm hours from 8:00 on.
\<close>

definition example_day :: "reading list" where
  "example_day =
     map (\<lambda>k. \<lparr>dt = 3600 * int k, feels_like = 80,
               wind_speed = (if 10 \<le> k \<and> k \<le> 17 then 2 else 20)\<rparr>) [0..<36]"

definition example_night :: "reading list" where
  "example_night =
     map (\<lambda>k. \<lparr>dt = 3600 * int k, feels_like = 80, wind_speed = 2\<rparr>) [22..<32]"

definition example_morning :: "reading list" where
  "example_morning =
     map (\<lambda>k. \<lparr>dt = 3600 * int k, feels_like = 80, wind_speed = 2\<rparr>) [8..<16]"

text \<open>
  A document observed at 8:10 with the calm morning as its forecast; an environment
  that holds a key and receives that document, and three variations of it: no key, a
  provider that cannot be reached, and a forecast of ten calm hours from 22:00 on.
\<close>

definition example_document :: document where
  "example_document =
     \<lparr>document.current = Some \<lparr>dt = 29400, feels_like = 72, wind_speed = 9\<rparr>,
      hourly = Some example_morning, timezone_offset = 0\<rparr>"

definition example_env :: env where
  "example_env =
     \<lparr>OPEN_WEATHER_MAP_API_KEY = Some ''k'', fetch = (\<lambda>url. Json example_document),
      centralTimeNow = ''3:10 AM''\<rparr>"

definition example_env_nokey :: env where
  "example_env_nokey = example_env\<lparr>OPEN_WEATHER_MAP_API_KEY := None\<rparr>"


definition example_env_night :: env where
  "example_env_night =
     example_env\<lparr>fetch := (\<lambda>url. Json (example_document\<lparr>hourly := Some example_night\<rparr>))\<rparr>"

text \<open>
  A forecast whose entries are not in ascending order of \<open>dt\<close>, and a document that has
  \<open>current\<close> and \<open>hourly\<close> but no \<open>timezone_offset\<close>, each with its environment.
\<close>

definition example_unsorted :: "reading list" where
  "example_unsorted =
     map (\<lambda>d. \<lparr>dt = d, feels_like = 80, wind_speed = 2\<rparr>) [28800, 36000, 32400, 39600]"

definition example_env_unsorted :: env where
  "example_env_unsorted =
     example_env\<lparr>fetch := (\<lambda>url. Json (example_document\<lparr>hourly := Some example_unsorted\<rparr>))\<rparr>"



section \<open>Properties\<close>

subsection \<open>The scorers\<close>

text \<open>
  Claim C3. For every non-negative wind speed in mph the classifier returns class 0
  on [0,1), 1 on [1,4), 2 on [4,8), 3 on [8,13), 4 on [13,18), 5 on [18,24),
  6 on [24,31), 7 on [31,38) and 8 on [38,46); from 46 mph on it returns
  \<open>round (speed / 5)\<close>, which has no upper cap: the class is then above 8, and every
  bound is exceeded by the class of some speed.
\<close>

theorem convertMphToBft_bands:
  "(0 \<le> mph \<and> mph < 1 \<longrightarrow> convertMphToBft mph = 0) \<and>
   (1 \<le> mph \<and> mph < 4 \<longrightarrow> convertMphToBft mph = 1) \<and>
   (4 \<le> mph \<and> mph < 8 \<longrightarrow> convertMphToBft mph = 2) \<and>
   (8 \<le> mph \<and> mph < 13 \<longrightarrow> convertMphToBft mph = 3) \<and>
   (13 \<le> mph \<and> mph < 18 \<longrightarrow> convertMphToBft mph = 4) \<and>
   (18 \<le> mph \<and> mph < 24 \<longrightarrow> convertMphToBft mph = 5) \<and>
   (24 \<le> mph \<and> mph < 31 \<longrightarrow> convertMphToBft mph = 6) \<and>
   (31 \<le> mph \<and> mph < 38 \<longrightarrow> convertMphToBft mph = 7) \<and>
   (38 \<le> mph \<and> mph < 46 \<longrightarrow> convertMphToBft mph = 8) \<and>
   (46 \<le> mph \<longrightarrow> convertMphToBft mph = round (mph / 5) \<and> 8 < convertMphToBft mph) \<and>
   (\<exists>v\<ge>46. bound < convertMphToBft v)"
proof -
  have cap: "46 \<le> mph \<longrightarrow> 8 < round (mph / 5)"
  proof
    assume "46 \<le> mph"
    then have "(9::real) \<le> mph / 5 + 1 / 2" by simp
    then have "(9::int) \<le> \<lfloor>mph / 5 + 1 / 2\<rfloor>" by (simp add: le_floor_iff)
    then show "8 < round (mph / 5)" by (simp add: round_def)
  qed
  have unbounded: "\<exists>v\<ge>46. bound < convertMphToBft v"
  proof -
    define v :: real where "v = 5 * of_int (max 10 (bound + 1))"
    have "46 \<le> v" by (simp add: v_def max_def)
    moreover have "round (v / 5) = max 10 (bound + 1)" by (simp add: v_def)
    ultimately have "46 \<le> v \<and> bound < convertMphToBft v"
      by (simp add: convertMphToBft_def)
    then show ?thesis by blast
  qed
  show ?thesis using cap unbounded by (simp add: convertMphToBft_def)
qed

theorem convertMphToBft_bands_witness:
  "convertMphToBft (1 / 2) = 0 \<and> convertMphToBft 1 = 1 \<and> convertMphToBft 4 = 2 \<and>
   convertMphToBft (25 / 2) = 3 \<and> convertMphToBft 13 = 4 \<and> convertMphToBft 20 = 5 \<and>
   convertMphToBft 24 = 6 \<and> convertMphToBft 37 = 7 \<and> convertMphToBft (459 / 10) = 8 \<and>
   convertMphToBft 46 = round ((46::real) / 5) \<and> 8 < convertMphToBft 46"
  using convertMphToBft_bands [of "1 / 2" 0] convertMphToBft_bands [of 1 0]
    convertMphToBft_bands [of 4 0] convertMphToBft_bands [of "25 / 2" 0]
    convertMphToBft_bands [of 13 0] convertMphToBft_bands [of 20 0]
    convertMphToBft_bands [of 24 0] convertMphToBft_bands [of 37 0]
    convertMphToBft_bands [of "459 / 10" 0] convertMphToBft_bands [of 46 0]
  by simp

text \<open>
  Claim C4. For every temperature the temperature scorer returns a value among
  1, 2, 3, 4, 5, decided by the bands: 5 exactly on [75,85]; 4 exactly on [70,75)
  and (85,90]; 3 exactly on [65,70) and (90,95]; 2 exactly on [60,65) and (95,100];
  1 exactly below 60 and above 100. In particular the scores of 75, 69.9, 100.1,
  60 and 59.9 are 5, 3, 1, 2 and 1.
\<close>

theorem getTempScore_bands:
  "getTempScore t \<in> {1, 2, 3, 4, 5} \<and>
   (getTempScore t = 5) = (75 \<le> t \<and> t \<le> 85) \<and>
   (getTempScore t = 4) = ((70 \<le> t \<and> t < 75) \<or> (85 < t \<and> t \<le> 90)) \<and>
   (getTempScore t = 3) = ((65 \<le> t \<and> t < 70) \<or> (90 < t \<and> t \<le> 95)) \<and>
   (getTempScore t = 2) = ((60 \<le> t \<and> t < 65) \<or> (95 < t \<and> t \<le> 100)) \<and>
   (getTempScore t = 1) = (t < 60 \<or> 100 < t) \<and>
   getTempScore 75 = 5 \<and> getTempScore (699 / 10) = 3 \<and> getTempScore (1001 / 10) = 1 \<and>
   getTempScore 60 = 2 \<and> getTempScore (599 / 10) = 1"
  by (auto simp add: getTempScore_def)

text \<open>
  Claim C5. For every integer wind-force class the wind scorer returns 5 below 3,
  3 at 3, 2 at 4 and 1 above 4; so it never returns 4.
\<close>

theorem getWindScore_steps:
  "(c < 3 \<longrightarrow> getWindScore c = 5) \<and> (c = 3 \<longrightarrow> getWindScore c = 3) \<and>
   (c = 4 \<longrightarrow> getWindScore c = 2) \<and> (c > 4 \<longrightarrow> getWindScore c = 1) \<and>
   getWindScore c \<noteq> 4"
  by (simp add: getWindScore_def)

theorem getWindScore_steps_witness:
  "getWindScore 2 = 5 \<and> getWindScore 3 = 3 \<and> getWindScore 4 = 2 \<and> getWindScore 5 = 1 \<and>
   getWindScore 2 \<noteq> 4"
  using getWindScore_steps [of 2] getWindScore_steps [of 3] getWindScore_steps [of 4]
    getWindScore_steps [of 5]
  by simp

subsection \<open>The calm-period loop against the specification's policy\<close>

lemma spec_short: "length ys < 8 \<Longrightarrow> spec_calm_search off ys = None"
  by (subst spec_calm_search.simps) simp

lemma spec_hit: "8 \<le> length ys \<Longrightarrow> list_all calm (take 8 ys) \<Longrightarrow> inWindow off (hd ys) \<Longrightarrow> spec_calm_search off ys = Some (dt (hd ys))"
  by (subst spec_calm_search.simps) simp

lemma spec_discard: "8 \<le> length ys \<Longrightarrow> list_all calm (take 8 ys) \<Longrightarrow> \<not> inWindow off (hd ys) \<Longrightarrow> spec_calm_search off ys = spec_calm_search off (drop 8 ys)"
  by (simp add: spec_calm_search.simps [of off ys])

lemma spec_step: "8 \<le> length ys \<Longrightarrow> \<not> list_all calm (take 8 ys) \<Longrightarrow> spec_calm_search off ys = spec_calm_search off (drop 1 ys)"
  by (simp add: spec_calm_search.simps [of off ys])

lemma not_all_calm:
  assumes "k < 8" "k < length ys" "\<not> calm (ys ! k)"
  shows "\<not> list_all calm (take 8 ys)"
proof
  assume "list_all calm (take 8 ys)"
  with assms(1,2) have "calm (take 8 ys ! k)" by (simp add: list_all_length)
  with assms show False by simp
qed

lemma spec_skip: "k < 8 \<Longrightarrow> k < length ys \<Longrightarrow> \<not> calm (ys ! k) \<Longrightarrow> spec_calm_search off ys = spec_calm_search off (drop (Suc k) ys)"
proof (induction k arbitrary: ys)
  case 0
  show ?case
  proof (cases "length ys < 8")
    case True
    then have "length (drop (Suc 0) ys) < 8" by simp
    with True show ?thesis by (simp only: spec_short)
  next
    case False
    from 0 have "\<not> list_all calm (take 8 ys)"
      by (rule not_all_calm)
    with False show ?thesis by (simp add: spec_step)
  qed
next
  case (Suc k)
  show ?case
  proof (cases "length ys < 8")
    case True
    then have "length (drop (Suc (Suc k)) ys) < 8" by simp
    with True show ?thesis by (simp only: spec_short)
  next
    case False
    from Suc.prems have "\<not> list_all calm (take 8 ys)"
      by (rule not_all_calm)
    with False have "spec_calm_search off ys = spec_calm_search off (drop 1 ys)" by (simp add: spec_step)
    also have "\<dots> = spec_calm_search off (drop (Suc k) (drop 1 ys))"
      using Suc.prems by (intro Suc.IH) auto
    finally show ?thesis by simp
  qed
qed


lemma ms_hour: "((x * 1000) div 3600000 :: int) = x div 3600"
proof -
  have "(x * 1000) div 3600000 = (x * 1000) div (3600 * 1000)" by simp
  also have "\<dots> = x div 3600" by (simp only: div_mult_mult2)
  finally show ?thesis .
qed

lemma ms_minute: "((x * 1000) div 60000 :: int) = x div 60"
proof -
  have "(x * 1000) div 60000 = (x * 1000) div (60 * 1000)" by simp
  also have "\<dots> = x div 60" by (simp only: div_mult_mult2)
  finally show ?thesis .
qed

lemma getHours_localHour: "getHours (Date ((d + off) * 1000)) = localHour off d"
  using ms_hour [of "d + off"] by (simp add: getHours_def localHour_def LocalTZA_def)

lemma getHours_localHour': "getHours (Date (d * 1000 + off * 1000)) = localHour off d"
  using getHours_localHour [of d off] by (simp add: distrib_right)

lemma getMinutes_localMinute: "getMinutes (Date ((d + off) * 1000)) = localMinute off d"
  using ms_minute [of "d + off"] by (simp add: getMinutes_def localMinute_def LocalTZA_def)



lemma calmLoop_done: "\<not> i < lmt \<Longrightarrow> calmLoop off hs lmt i cand c = Inr None"
  by (simp add: calmLoop.simps [of off hs lmt i cand c])

lemma calmLoop_windy:
  "i < lmt \<Longrightarrow> i < length hs \<Longrightarrow> \<not> calm (hs ! i) \<Longrightarrow>
   calmLoop off hs lmt i cand c = calmLoop off hs lmt (i + 1) None 0"
  by (simp add: calmLoop.simps [of off hs lmt i cand c] calm_def)

lemma calmLoop_count:
  "i < lmt \<Longrightarrow> i < length hs \<Longrightarrow> calm (hs ! i) \<Longrightarrow> c \<noteq> 7 \<Longrightarrow>
   calmLoop off hs lmt i cand c =
   calmLoop off hs lmt (i + 1) (if c = 0 then Some (hs ! i) else cand) (c + 1)"
  by (simp add: calmLoop.simps [of off hs lmt i cand c] calm_def Let_def)

lemma calmLoop_eighth_hit:
  "i < lmt \<Longrightarrow> i < length hs \<Longrightarrow> calm (hs ! i) \<Longrightarrow> inWindow off r \<Longrightarrow>
   calmLoop off hs lmt i (Some r) 7 = Inr (Some (dt r))"
  by (simp add: calmLoop.simps [of off hs lmt i "Some r" 7] calm_def Let_def
      getHours_localHour' inWindow_def)

lemma calmLoop_eighth_miss:
  "i < lmt \<Longrightarrow> i < length hs \<Longrightarrow> calm (hs ! i) \<Longrightarrow> \<not> inWindow off r \<Longrightarrow>
   calmLoop off hs lmt i (Some r) 7 = calmLoop off hs lmt (i + 1) None 0"
  by (auto simp add: calmLoop.simps [of off hs lmt i "Some r" 7] calm_def Let_def
      getHours_localHour' inWindow_def)

lemma calmLoop_spec:
  assumes "lmt \<le> length hs" "i \<le> lmt" "c \<le> i" "c < 8"
    and "\<forall>j. i - c \<le> j \<and> j < i \<longrightarrow> calm (hs ! j)"
    and "0 < c \<longrightarrow> cand = Some (hs ! (i - c))"
  shows "calmLoop off hs lmt i cand c = Inr (spec_calm_search off (drop (i - c) (take lmt hs)))"
  using assms
proof (induction "lmt - i" arbitrary: i cand c)
  case 0
  then have "i = lmt" by simp
  with 0 have "length (drop (i - c) (take lmt hs)) < 8" by simp
  then have "spec_calm_search off (drop (i - c) (take lmt hs)) = None" by (rule spec_short)
  moreover have "calmLoop off hs lmt i cand c = Inr None"
    using \<open>i = lmt\<close> by (simp add: calmLoop_done)
  ultimately show ?case by simp
next
  case (Suc n)
  let ?s = "i - c"
  let ?ys = "drop ?s (take lmt hs)"
  from Suc have i: "i < lmt" "i < length hs" by simp_all
  have nth: "?ys ! k = hs ! (?s + k)" if "?s + k < lmt" for k
    using that Suc.prems(1) by simp
  have len: "length ?ys = lmt - ?s" using Suc.prems(1) by simp
  have sc: "?s + c = i" using Suc.prems(3) by simp
  have restart: "calmLoop off hs lmt (i + 1) None 0 =
      Inr (spec_calm_search off (drop (i + 1) (take lmt hs)))"
  proof -
    have "n = lmt - (i + 1)" using Suc.hyps(2) by simp
    moreover have "i + 1 \<le> lmt" using i by simp
    moreover have "\<forall>j. i + 1 - 0 \<le> j \<and> j < i + 1 \<longrightarrow> calm (hs ! j)" by auto
    ultimately have "calmLoop off hs lmt (i + 1) None 0 =
        Inr (spec_calm_search off (drop (i + 1 - 0) (take lmt hs)))"
      using Suc.prems(1) by (intro Suc.hyps(1)) simp_all
    then show ?thesis by simp
  qed
  show ?case
  proof (cases "calm (hs ! i)")
    case False
    have "calmLoop off hs lmt i cand c = calmLoop off hs lmt (i + 1) None 0"
      using i False by (rule calmLoop_windy)
    moreover have "spec_calm_search off ?ys = spec_calm_search off (drop (i + 1) (take lmt hs))"
    proof -
      have "\<not> calm (?ys ! c)" using nth [of c] sc i False by simp
      moreover have "c < length ?ys" using len sc i by linarith
      ultimately have "spec_calm_search off ?ys = spec_calm_search off (drop (Suc c) ?ys)"
        using Suc.prems(4) by (intro spec_skip)
      also have "drop (Suc c) ?ys = drop (i + 1) (take lmt hs)"
        using sc by (simp add: add.commute)
      finally show ?thesis .
    qed
    ultimately show ?thesis using restart by simp
  next
    case True
    have cand': "(if c = 0 then Some (hs ! i) else cand) = Some (hs ! ?s)"
      using Suc.prems(6) by (cases "c = 0") simp_all
    have run: "calm (hs ! j)" if "?s \<le> j" "j \<le> i" for j
      using that True Suc.prems(5) by (cases "j = i") simp_all
    show ?thesis
    proof (cases "c = 7")
      case False
      have "calmLoop off hs lmt i cand c =
          calmLoop off hs lmt (i + 1) (if c = 0 then Some (hs ! i) else cand) (c + 1)"
        using i True False by (rule calmLoop_count)
      also have "\<dots> = calmLoop off hs lmt (i + 1) (Some (hs ! ?s)) (c + 1)"
        by (simp only: cand')
      also have "\<dots> = Inr (spec_calm_search off (drop (i + 1 - (c + 1)) (take lmt hs)))"
      proof (intro Suc.hyps(1))
        show "n = lmt - (i + 1)" using Suc.hyps(2) by simp
        show "lmt \<le> length hs" by (rule Suc.prems(1))
        show "i + 1 \<le> lmt" using i by simp
        show "c + 1 \<le> i + 1" using Suc.prems(3) by simp
        show "c + 1 < 8" using False Suc.prems(4) by simp
        show "\<forall>j. i + 1 - (c + 1) \<le> j \<and> j < i + 1 \<longrightarrow> calm (hs ! j)"
          using run by simp
        show "0 < c + 1 \<longrightarrow> Some (hs ! ?s) = Some (hs ! (i + 1 - (c + 1)))" by simp
      qed
      finally show ?thesis by simp
    next
      case seven: True
      have cand: "cand = Some (hs ! ?s)" using cand' seven by simp
      have len8: "8 \<le> length ?ys" using len sc i seven by linarith
      have all8: "list_all calm (take 8 ?ys)"
        unfolding list_all_length
      proof (intro allI impI)
        fix k assume "k < length (take 8 ?ys)"
        then have k: "k < 8" by simp
        then have "?s + k < lmt" "?s + k \<le> i" using sc seven i by linarith+
        then show "calm (take 8 ?ys ! k)" using k nth [of k] run [of "?s + k"] by simp
      qed
      have "?ys \<noteq> []" using len8 by auto
      then have "hd ?ys = ?ys ! 0" by (rule hd_conv_nth)
      moreover have "?s + 0 < lmt" using i by simp
      then have "?ys ! 0 = hs ! (?s + 0)" by (rule nth)
      ultimately have hd: "hd ?ys = hs ! ?s" by simp
      show ?thesis
      proof (cases "inWindow off (hs ! ?s)")
        case True
        have "calmLoop off hs lmt i (Some (hs ! ?s)) 7 = Inr (Some (dt (hs ! ?s)))"
          using i \<open>calm (hs ! i)\<close> True by (rule calmLoop_eighth_hit)
        moreover have "spec_calm_search off ?ys = Some (dt (hd ?ys))"
          using len8 all8 True hd by (intro spec_hit) simp_all
        ultimately show ?thesis using cand seven hd by simp
      next
        case False
        have "calmLoop off hs lmt i (Some (hs ! ?s)) 7 = calmLoop off hs lmt (i + 1) None 0"
          using i \<open>calm (hs ! i)\<close> False by (rule calmLoop_eighth_miss)
        moreover have "spec_calm_search off ?ys = spec_calm_search off (drop (i + 1) (take lmt hs))"
        proof -
          have "spec_calm_search off ?ys = spec_calm_search off (drop 8 ?ys)"
            using len8 all8 False hd by (intro spec_discard) simp_all
          also have "drop 8 ?ys = drop (i + 1) (take lmt hs)"
            using sc seven by (simp add: add.commute)
          finally show ?thesis .
        qed
        ultimately show ?thesis using restart cand seven by simp
      qed
    qed
  qed
qed

lemma calmFinder_spec: "calmFinder off hs = Inr (spec_calm_search off (take 36 hs))"
proof -
  have "calmLoop off hs (min 36 (length hs)) 0 None 0 =
      Inr (spec_calm_search off (drop (0 - 0) (take (min 36 (length hs)) hs)))"
    by (rule calmLoop_spec) simp_all
  moreover have "take (min 36 (length hs)) hs = take 36 hs"
    by (simp add: min_def)
  ultimately show ?thesis by (simp add: calmFinder_def)
qed

lemma spec_sound:
  "spec_calm_search off ys = Some d \<Longrightarrow>
   \<exists>s. s + 8 \<le> length ys \<and> d = dt (ys ! s) \<and> (\<forall>j<8. calm (ys ! (s + j))) \<and> inWindow off (ys ! s)"
proof (induction "length ys" arbitrary: ys rule: less_induct)
  case less
  have len8: "8 \<le> length ys"
    using less.prems spec_short [of ys off] by (cases "length ys < 8") simp_all
  show ?case
  proof (cases "list_all calm (take 8 ys)")
    case all8: True
    show ?thesis
    proof (cases "inWindow off (hd ys)")
      case True
      have hd: "hd ys = ys ! 0" using len8 by (intro hd_conv_nth) auto
      have "spec_calm_search off ys = Some (dt (hd ys))" using len8 all8 True by (rule spec_hit)
      with less.prems have "d = dt (ys ! 0)" using hd by simp
      moreover have "\<forall>j<8. calm (ys ! (0 + j))"
        using all8 len8 by (auto simp add: list_all_length)
      ultimately have "0 + 8 \<le> length ys \<and> d = dt (ys ! 0) \<and> (\<forall>j<8. calm (ys ! (0 + j))) \<and>
          inWindow off (ys ! 0)"
        using len8 True hd by simp
      then show ?thesis by blast
    next
      case False
      have "spec_calm_search off ys = spec_calm_search off (drop 8 ys)"
        using len8 all8 False by (rule spec_discard)
      with less.prems have "spec_calm_search off (drop 8 ys) = Some d" by simp
      moreover have "length (drop 8 ys) < length ys" using len8 by simp
      ultimately obtain s where s: "s + 8 \<le> length (drop 8 ys)" "d = dt (drop 8 ys ! s)"
          "\<forall>j<8. calm (drop 8 ys ! (s + j))" "inWindow off (drop 8 ys ! s)"
        using less.hyps [of "drop 8 ys"] by blast
      then have "(8 + s) + 8 \<le> length ys \<and> d = dt (ys ! (8 + s)) \<and>
          (\<forall>j<8. calm (ys ! ((8 + s) + j))) \<and> inWindow off (ys ! (8 + s))"
        using len8 by (simp add: add.assoc)
      then show ?thesis by blast
    qed
  next
    case False
    have "spec_calm_search off ys = spec_calm_search off (drop 1 ys)"
      using len8 False by (rule spec_step)
    with less.prems have "spec_calm_search off (drop 1 ys) = Some d" by simp
    moreover have "length (drop 1 ys) < length ys" using len8 by simp
    ultimately obtain s where s: "s + 8 \<le> length (drop 1 ys)" "d = dt (drop 1 ys ! s)"
        "\<forall>j<8. calm (drop 1 ys ! (s + j))" "inWindow off (drop 1 ys ! s)"
      using less.hyps [of "drop 1 ys"] by blast
    then have "(1 + s) + 8 \<le> length ys \<and> d = dt (ys ! (1 + s)) \<and>
        (\<forall>j<8. calm (ys ! ((1 + s) + j))) \<and> inWindow off (ys ! (1 + s))"
      using len8 by (simp add: add.assoc)
    then show ?thesis by blast
  qed
qed

text \<open>
  Claim C1. For every hourly sequence the calm-period finder throws nothing, its result
  depends on the first 36 entries only, and it is that of the specification's policy on
  the first \<open>min 36 (length hourly)\<close> entries: the \<open>dt\<close> of the first entry of the first run of 8 consecutive entries of
  wind-force class below 3 whose first entry has its local hour in [8, 21), where a run
  of 8 that starts outside the window is discarded whole and the search resumes after
  it, and no window when the scanned entries are exhausted. Whatever is reported is
  the \<open>dt\<close> of a scanned entry that starts 8 scanned calm entries and whose local hour
  lies in [8, 21), so a run starting at local hour 22 is never reported.
\<close>

theorem calmFinder_first_run:
  "calmFinder off hs = Inr (spec_calm_search off (take (min 36 (length hs)) hs)) \<and>
   (\<forall>d. calmFinder off hs = Inr (Some d) \<longrightarrow>
      (\<exists>s. s + 8 \<le> min 36 (length hs) \<and> d = dt (hs ! s) \<and>
           (\<forall>j<8. convertMphToBft (wind_speed (hs ! (s + j))) < 3) \<and>
           8 \<le> localHour off (dt (hs ! s)) \<and> localHour off (dt (hs ! s)) < 21)) \<and>
   (take 36 hs' = take 36 hs \<longrightarrow> calmFinder off hs' = calmFinder off hs)"
proof -
  have t: "take (min 36 (length hs)) hs = take 36 hs" by (simp add: min_def)
  have c: "take 36 hs' = take 36 hs \<longrightarrow> calmFinder off hs' = calmFinder off hs"
    by (simp add: calmFinder_spec)
  have a: "calmFinder off hs = Inr (spec_calm_search off (take 36 hs))"
    by (rule calmFinder_spec)
  have b: "\<exists>s. s + 8 \<le> min 36 (length hs) \<and> d = dt (hs ! s) \<and>
           (\<forall>j<8. convertMphToBft (wind_speed (hs ! (s + j))) < 3) \<and>
           8 \<le> localHour off (dt (hs ! s)) \<and> localHour off (dt (hs ! s)) < 21"
    if "calmFinder off hs = Inr (Some d)" for d
  proof -
    from that a have "spec_calm_search off (take 36 hs) = Some d" by simp
    then obtain s where s: "s + 8 \<le> length (take 36 hs)" "d = dt (take 36 hs ! s)"
        "\<forall>j<8. calm (take 36 hs ! (s + j))" "inWindow off (take 36 hs ! s)"
      using spec_sound by blast
    have n: "take 36 hs ! (s + j) = hs ! (s + j)" if "j < 8" for j
      using that s(1) by simp
    have "s + 8 \<le> min 36 (length hs)" using s(1) by simp
    moreover have "d = dt (hs ! s)" using s(2) n [of 0] by simp
    moreover have "\<forall>j<8. convertMphToBft (wind_speed (hs ! (s + j))) < 3"
      using s(3) n by (simp add: calm_def)
    moreover have "8 \<le> localHour off (dt (hs ! s)) \<and> localHour off (dt (hs ! s)) < 21"
      using s(4) n [of 0] by (simp add: inWindow_def)
    ultimately show ?thesis by blast
  qed
  show ?thesis using a b c t by simp
qed

theorem calmFinder_first_run_witness:
  "calmFinder 0 example_day = Inr (Some 36000) \<and>
   (\<exists>s. s + 8 \<le> min 36 (length example_day) \<and> 36000 = dt (example_day ! s) \<and>
        (\<forall>j<8. convertMphToBft (wind_speed (example_day ! (s + j))) < 3) \<and>
        8 \<le> localHour 0 (dt (example_day ! s)) \<and> localHour 0 (dt (example_day ! s)) < 21) \<and>
   calmFinder 0 example_night = Inr None"
proof -
  have day: "calmFinder 0 example_day = Inr (Some 36000)" by code_simp
  have night: "calmFinder 0 example_night = Inr None" by code_simp
  show ?thesis using calmFinder_first_run [of 0 example_day] day night by simp
qed

text \<open>
  Claim C10. The calm-period scan starts at index 0 of the hourly sequence: whenever
  the entries 0 to 7 all have wind-force class below 3 and the local hour of entry 0
  lies in [8, 21), the finder reports the \<open>dt\<close> of entry 0. The chart builder skips
  index 0: the chart data do not depend on that entry.
\<close>

theorem calmFinder_index0:
  "(8 \<le> length hs \<and> (\<forall>j<8. convertMphToBft (wind_speed (hs ! j)) < 3) \<and>
    8 \<le> localHour off (dt (hs ! 0)) \<and> localHour off (dt (hs ! 0)) < 21 \<longrightarrow>
    calmFinder off hs = Inr (Some (dt (hs ! 0)))) \<and>
   chartData off cur (h # rest) = chartData off cur (h' # rest)"
proof -
  have "calmFinder off hs = Inr (Some (dt (hs ! 0)))"
    if len: "8 \<le> length hs" and all: "\<forall>j<8. convertMphToBft (wind_speed (hs ! j)) < 3"
      and win: "8 \<le> localHour off (dt (hs ! 0)) \<and> localHour off (dt (hs ! 0)) < 21"
  proof -
    let ?ys = "take 36 hs"
    have l: "8 \<le> length ?ys" using len by simp
    have hd: "hd ?ys = hs ! 0" using len by (cases hs) simp_all
    have "list_all calm (take 8 ?ys)"
      using all len by (simp add: list_all_length calm_def)
    moreover have "inWindow off (hd ?ys)" using win hd by (simp add: inWindow_def)
    ultimately have "spec_calm_search off ?ys = Some (dt (hd ?ys))"
      using l by (intro spec_hit)
    then show ?thesis using hd by (simp add: calmFinder_spec)
  qed
  moreover have "chartData off cur (h # rest) = chartData off cur (h' # rest)"
    by (simp add: chartData_def slice1_def)
  ultimately show ?thesis by blast
qed

theorem calmFinder_index0_witness:
  "8 \<le> length example_morning \<and>
   list_all (\<lambda>h. convertMphToBft (wind_speed h) < 3) (take 8 example_morning) \<and>
   8 \<le> localHour 0 (dt (example_morning ! 0)) \<and> localHour 0 (dt (example_morning ! 0)) < 21 \<and>
   calmFinder 0 example_morning = Inr (Some (dt (example_morning ! 0)))"
proof -
  have len: "length example_morning = 8" by (simp add: example_morning_def)
  have all: "list_all (\<lambda>h. convertMphToBft (wind_speed h) < 3) example_morning"
    by code_simp
  have a: "\<forall>j<8. convertMphToBft (wind_speed (example_morning ! j)) < 3"
    using all len by (simp add: list_all_length)
  have h: "8 \<le> localHour 0 (dt (example_morning ! 0)) \<and> localHour 0 (dt (example_morning ! 0)) < 21"
    by code_simp
  show ?thesis using calmFinder_index0 [of example_morning 0] len all a h by simp
qed

subsection \<open>The text of a time of day\<close>

lemma digitsOf_one: "n < 10 \<Longrightarrow> digitsOf n = [char_of (48 + n)]"
  by (simp add: digitsOf.simps [of n])

lemma digitsOf_two:
  "10 \<le> n \<Longrightarrow> n < 100 \<Longrightarrow> digitsOf n = [char_of (48 + n div 10), char_of (48 + n mod 10)]"
  by (simp add: digitsOf.simps [of n] digitsOf_one)

lemma digit_nat: "0 \<le> k \<Longrightarrow> char_of (48 + nat k) = digit k"
proof -
  assume "0 \<le> k"
  then have "int (48 + nat k) = 48 + k" by simp
  then have "char_of (int (48 + nat k)) = (char_of (48 + k) :: char)" by (simp only:)
  then show ?thesis by (simp only: char_of_nat digit_def)
qed

lemma numberToString_one: "0 \<le> k \<Longrightarrow> k < 10 \<Longrightarrow> numberToString k = [digit k]"
  by (simp add: numberToString_def digitsOf_one digit_nat)

lemma numberToString_two:
  assumes "10 \<le> k" "k < 100"
  shows "numberToString k = [digit (k div 10), digit (k mod 10)]"
proof -
  have "numberToString k = digitsOf (nat k)" using assms by (simp add: numberToString_def)
  also have "\<dots> = [char_of (48 + nat k div 10), char_of (48 + nat k mod 10)]"
    using assms by (intro digitsOf_two) simp_all
  also have "nat k div 10 = nat (k div 10)" using assms by (simp add: nat_div_distrib)
  also have "nat k mod 10 = nat (k mod 10)" using assms by (simp add: nat_mod_distrib)
  finally show ?thesis using assms by (simp add: digit_nat)
qed

lemma digit_chars: "digit 0 = CHR ''0''" "digit 1 = CHR ''1''" "digit 2 = CHR ''2''"
  by code_simp+

lemma getMinutes_localMinute': "getMinutes (Date (d * 1000 + off * 1000)) = localMinute off d"
  using getMinutes_localMinute [of d off] by (simp add: distrib_right)

lemma jsRem_nonneg: "0 \<le> a \<Longrightarrow> 0 < b \<Longrightarrow> jsRem a b = a mod b"
  by (cases "a = 0") (simp_all add: jsRem_def)

lemma formatTime_spec_clock12:
  "formatTime (Date ((s + off) * 1000)) = spec_clock12 (localHour off s) (localMinute off s)"
proof -
  define h where "h = localHour off s"
  define m where "m = localMinute off s"
  have h: "0 \<le> h" "h < 24" by (simp_all add: h_def localHour_def)
  have m: "0 \<le> m" "m < 60" by (simp_all add: m_def localMinute_def)
  define h12 where "h12 = (if h mod 12 = 0 then 12 else h mod 12)"
  have h12: "1 \<le> h12" "h12 \<le> 12"
    using pos_mod_bound [of 12 h] pos_mod_sign [of 12 h]
    by (auto simp add: h12_def simp del: pos_mod_bound pos_mod_sign)
  have hours: "numberToString h12 =
      (if h mod 12 = 0 then ''12''
       else if h mod 12 < 10 then [digit (h mod 12)]
       else [digit 1, digit (h mod 12 - 10)])"
  proof (cases "h12 < 10")
    case True
    then have "numberToString h12 = [digit h12]" using h12 by (intro numberToString_one) simp_all
    with True show ?thesis by (auto simp add: h12_def split: if_splits)
  next
    case False
    then have "numberToString h12 = [digit (h12 div 10), digit (h12 mod 10)]"
      using h12 by (intro numberToString_two) simp_all
    moreover have "h12 = 10 \<or> h12 = 11 \<or> h12 = 12" using False h12 by linarith
    ultimately show ?thesis
      using pos_mod_bound [of 12 h]
      by (auto simp add: h12_def digit_chars split: if_splits simp del: pos_mod_bound)
  qed
  have minutes: "(if m < 10 then ''0'' @ numberToString m else numberToString m) =
      [digit (m div 10), digit (m mod 10)]"
  proof (cases "m < 10")
    case True
    then have "numberToString m = [digit m]" using m by (intro numberToString_one) simp_all
    with True m show ?thesis by (simp add: digit_chars)
  next
    case False
    then have "numberToString m = [digit (m div 10), digit (m mod 10)]"
      using m by (intro numberToString_two) simp_all
    with False show ?thesis by simp
  qed
  have "formatTime (Date ((s + off) * 1000)) =
      numberToString h12 @ '':'' @
      (if m < 10 then ''0'' @ numberToString m else numberToString m) @
      (if h \<ge> 12 then ''pm'' else ''am'')"
    using h by (simp add: formatTime_def Let_def getHours_localHour' getMinutes_localMinute'
        h_def [symmetric] m_def [symmetric] jsRem_nonneg h12_def)
  also have "\<dots> = spec_clock12 h m"
    by (simp only: hours minutes spec_clock12_def) (simp add: not_less)
  finally show ?thesis by (simp only: h_def m_def)
qed

lemma spec_clock12_not_dashes: "spec_clock12 h m \<noteq> ''--''"
proof
  assume "spec_clock12 h m = ''--''"
  moreover have "CHR '':'' \<in> set (spec_clock12 h m)" by (simp add: spec_clock12_def)
  ultimately show False by simp
qed

subsection \<open>The handler, case by case\<close>

lemma fold_pushHour:
  "fold (pushHour off) xs (od, wd, td) =
    (od @ map (\<lambda>h. ((dt h + off) * 1000,
                      getOverallScore (reading.feels_like h) (convertMphToBft (wind_speed h)))) xs,
     wd @ map (\<lambda>h. ((dt h + off) * 1000, getWindScore (convertMphToBft (wind_speed h)))) xs,
     td @ map (\<lambda>h. ((dt h + off) * 1000, getTempScore (reading.feels_like h))) xs)"
  by (induction xs arbitrary: od wd td) (simp_all add: pushHour_def Let_def)

lemma chartData_series:
  "chartData off cur hs =
    (map (\<lambda>(ts, h). (ts, getOverallScore (reading.feels_like h) (convertMphToBft (wind_speed h))))
       ((currentTimestamp off cur, cur) # map (\<lambda>h. ((dt h + off) * 1000, h)) (slice1 hs)),
     map (\<lambda>(ts, h). (ts, getWindScore (convertMphToBft (wind_speed h))))
       ((currentTimestamp off cur, cur) # map (\<lambda>h. ((dt h + off) * 1000, h)) (slice1 hs)),
     map (\<lambda>(ts, h). (ts, getTempScore (reading.feels_like h)))
       ((currentTimestamp off cur, cur) # map (\<lambda>h. ((dt h + off) * 1000, h)) (slice1 hs)))"
  by (simp add: chartData_def Let_def fold_pushHour comp_def)

lemma compute_Inr:
  assumes "document.current data = Some cur" "hourly data = Some hs"
  shows "compute e data =
    Inr \<lparr>current =
           \<lparr>feels_like = round (reading.feels_like cur),
            wind_speed_mph = wind_speed cur,
            wind_speed_bft = convertMphToBft (wind_speed cur),
            overall_score = getOverallScore (reading.feels_like cur) (convertMphToBft (wind_speed cur)),
            wind_score = getWindScore (convertMphToBft (wind_speed cur)),
            temp_score = getTempScore (reading.feels_like cur),
            updated_at = centralTimeNow e\<rparr>,
         chart_data =
           \<lparr>overall = fst (chartData (timezone_offset data) cur hs),
            wind = fst (snd (chartData (timezone_offset data) cur hs)),
            temp = snd (snd (chartData (timezone_offset data) cur hs))\<rparr>,
         calm_period =
           calmPeriodText (timezone_offset data)
             (spec_calm_search (timezone_offset data) (take 36 hs))\<rparr>"
  using assms by (simp add: compute_def Let_def calmFinder_spec split: prod.split)


lemma tryBlock_Inr:
  assumes "fetch e url = Json data" "document.current data = Some cur" "hourly data = Some hs"
  shows "tryBlock e url =
    Inr (Payload
      \<lparr>current =
           \<lparr>feels_like = round (reading.feels_like cur),
            wind_speed_mph = wind_speed cur,
            wind_speed_bft = convertMphToBft (wind_speed cur),
            overall_score = getOverallScore (reading.feels_like cur) (convertMphToBft (wind_speed cur)),
            wind_score = getWindScore (convertMphToBft (wind_speed cur)),
            temp_score = getTempScore (reading.feels_like cur),
            updated_at = centralTimeNow e\<rparr>,
         chart_data =
           \<lparr>overall = fst (chartData (timezone_offset data) cur hs),
            wind = fst (snd (chartData (timezone_offset data) cur hs)),
            temp = snd (snd (chartData (timezone_offset data) cur hs))\<rparr>,
         calm_period =
           calmPeriodText (timezone_offset data)
             (spec_calm_search (timezone_offset data) (take 36 hs))\<rparr>)"
  by (simp add: tryBlock_def assms(1) compute_Inr [OF assms(2,3)])






lemma handler_keyed:
  assumes "OPEN_WEATHER_MAP_API_KEY e = Some k" "k \<noteq> []"
  shows "handler e =
    (case tryBlock e (url_of k) of
       Inl x \<Rightarrow> (\<lparr>status = 500, json = Error ''Failed to fetch weather data''\<rparr>,
                 \<lparr>fetched = [url_of k], logged = [x]\<rparr>)
     | Inr out \<Rightarrow> (\<lparr>status = 200, json = out\<rparr>,
                   \<lparr>fetched = [url_of k], logged = []\<rparr>))"
  using assms by (simp add: handler_def Let_def)

lemma handler_unkeyed:
  assumes "OPEN_WEATHER_MAP_API_KEY e = None \<or> OPEN_WEATHER_MAP_API_KEY e = Some []"
  shows "handler e = missingKey"
  using assms by (auto simp add: handler_def)

lemma handler_ok:
  assumes "OPEN_WEATHER_MAP_API_KEY e = Some k" "k \<noteq> []" "fetch e (url_of k) = Json data"
    "document.current data = Some cur" "hourly data = Some hs"
  shows "handler e =
    (\<lparr>status = 200,
      json = Payload
        \<lparr>current =
           \<lparr>feels_like = round (reading.feels_like cur),
            wind_speed_mph = wind_speed cur,
            wind_speed_bft = convertMphToBft (wind_speed cur),
            overall_score = getOverallScore (reading.feels_like cur) (convertMphToBft (wind_speed cur)),
            wind_score = getWindScore (convertMphToBft (wind_speed cur)),
            temp_score = getTempScore (reading.feels_like cur),
            updated_at = centralTimeNow e\<rparr>,
         chart_data =
           \<lparr>overall = fst (chartData (timezone_offset data) cur hs),
            wind = fst (snd (chartData (timezone_offset data) cur hs)),
            temp = snd (snd (chartData (timezone_offset data) cur hs))\<rparr>,
         calm_period =
           calmPeriodText (timezone_offset data)
             (spec_calm_search (timezone_offset data) (take 36 hs))\<rparr>\<rparr>,
     \<lparr>fetched = [url_of k], logged = []\<rparr>)"
  using assms by (simp add: handler_keyed tryBlock_Inr)

lemma handler_ok_status:
  assumes "OPEN_WEATHER_MAP_API_KEY e = Some k" "k \<noteq> []" "fetch e (url_of k) = Json data"
    "document.current data = Some cur" "hourly data = Some hs"
  shows "status (fst (handler e)) = 200" "is_Payload (json (fst (handler e)))"
  by (simp_all add: handler_ok [OF assms])

lemma handler_ok_current:
  assumes "OPEN_WEATHER_MAP_API_KEY e = Some k" "k \<noteq> []" "fetch e (url_of k) = Json data"
    "document.current data = Some cur" "hourly data = Some hs"
  shows "overall_score (weather_output.current (payload (json (fst (handler e))))) =
      getOverallScore (reading.feels_like cur) (convertMphToBft (wind_speed cur))"
    "wind_score (weather_output.current (payload (json (fst (handler e))))) =
      getWindScore (convertMphToBft (wind_speed cur))"
    "temp_score (weather_output.current (payload (json (fst (handler e))))) =
      getTempScore (reading.feels_like cur)"
    "wind_speed_bft (weather_output.current (payload (json (fst (handler e))))) =
      convertMphToBft (wind_speed cur)"
  by (simp_all add: handler_ok [OF assms])

lemma handler_ok_chart:
  assumes "OPEN_WEATHER_MAP_API_KEY e = Some k" "k \<noteq> []" "fetch e (url_of k) = Json data"
    "document.current data = Some cur" "hourly data = Some hs"
  shows "overall (chart_data (payload (json (fst (handler e))))) =
      fst (chartData (timezone_offset data) cur hs)"
    "wind (chart_data (payload (json (fst (handler e))))) =
      fst (snd (chartData (timezone_offset data) cur hs))"
    "temp (chart_data (payload (json (fst (handler e))))) =
      snd (snd (chartData (timezone_offset data) cur hs))"
  by (simp_all add: handler_ok [OF assms])

lemma handler_ok_calm:
  assumes "OPEN_WEATHER_MAP_API_KEY e = Some k" "k \<noteq> []" "fetch e (url_of k) = Json data"
    "document.current data = Some cur" "hourly data = Some hs"
  shows "calm_period (payload (json (fst (handler e)))) =
      calmPeriodText (timezone_offset data) (spec_calm_search (timezone_offset data) (take 36 hs))"
  by (simp add: handler_ok [OF assms])

lemma currentTimestamp_floor:
  "currentTimestamp off cur = (dt cur + off) * 1000 - ((dt cur + off) * 1000) mod 3600000"
  by (simp add: currentTimestamp_def setMinutes_def LocalTZA_def Let_def)

lemma currentTimestamp_hour:
  "currentTimestamp off cur mod 3600000 = 0"
  "currentTimestamp off cur \<le> (dt cur + off) * 1000"
  "(dt cur + off) * 1000 < currentTimestamp off cur + 3600000"
  unfolding currentTimestamp_floor by (simp_all add: minus_mod_eq_mult_div)

lemma hour_multiple:
  assumes "(t::int) mod 3600000 = 0"
  shows "getMinutes (Date t) = 0" "(t div 1000) mod 60 = 0" "t mod 1000 = 0"
proof -
  from assms obtain q where t: "t = 3600000 * q" by auto
  have "t div 60000 = 60 * q" unfolding t by simp
  then show "getMinutes (Date t) = 0" by (simp add: getMinutes_def LocalTZA_def)
  have "t div 1000 = 60 * (60 * q)" unfolding t by simp
  then show "(t div 1000) mod 60 = 0" by simp
  have "t = 1000 * (3600 * q)" unfolding t by simp
  then show "t mod 1000 = 0" by simp
qed

lemma stamps_ascending:
  assumes "sorted_wrt (<) (d # map dt xs)" and "t0 \<le> (d + off) * 1000"
  shows "sorted_wrt (<) (t0 # map (\<lambda>h. (dt h + off) * 1000) (take n xs))"
proof -
  have "sorted_wrt (<) (take (Suc n) (d # map dt xs))"
    using assms(1) by (rule sorted_wrt_take)
  then have "sorted_wrt (<) (d # map dt (take n xs))" by (simp add: take_map)
  then have "sorted_wrt (\<lambda>a b. (a + off) * 1000 < (b + off) * 1000) (d # map dt (take n xs))"
    by (rule sorted_wrt_mono_rel [rotated]) simp
  then have "sorted_wrt (<) (map (\<lambda>a. (a + off) * 1000) (d # map dt (take n xs)))"
    by (simp only: sorted_wrt_map)
  then have "sorted_wrt (<) ((d + off) * 1000 # map (\<lambda>h. (dt h + off) * 1000) (take n xs))"
    by (simp add: comp_def)
  with assms(2) show ?thesis by auto
qed

lemma chartData_scores:
  "map snd (fst (chartData off cur hs)) =
     map (\<lambda>h. getOverallScore (reading.feels_like h) (convertMphToBft (wind_speed h)))
       (cur # take 3 (drop 1 hs))"
  "map snd (fst (snd (chartData off cur hs))) =
     map (\<lambda>h. getWindScore (convertMphToBft (wind_speed h))) (cur # take 3 (drop 1 hs))"
  "map snd (snd (snd (chartData off cur hs))) =
     map (\<lambda>h. getTempScore (reading.feels_like h)) (cur # take 3 (drop 1 hs))"
  unfolding chartData_series
  by (simp_all add: comp_def slice1_def hoursToDisplay_def split_def)



lemma stamps_from_invariant:
  assumes "sorted_wrt (<) (map dt (take 4 hs))"
    and "(dt cur + off) div 3600 = (dt (hs ! 0) + off) div 3600"
  shows "sorted_wrt (<)
    (currentTimestamp off cur # map (\<lambda>h. (dt h + off) * 1000) (take 3 (drop 1 hs)))"
proof (cases hs)
  case Nil
  then show ?thesis by simp
next
  case (Cons h0 rest)
  let ?q = "(dt h0 + off) div 3600"
  have "((dt cur + off) * 1000) div 3600000 = ?q"
    using assms(2) Cons by (simp only: ms_hour) simp
  then have "currentTimestamp off cur = 3600000 * ?q"
    unfolding currentTimestamp_floor by (simp add: minus_mod_eq_mult_div)
  also have "\<dots> = 1000 * (3600 * ?q)" by simp
  also have "3600 * ?q \<le> dt h0 + off" by (simp add: mult.commute)
  finally have le: "currentTimestamp off cur \<le> (dt h0 + off) * 1000" by simp
  have "sorted_wrt (<) (dt h0 # map dt (take 3 rest))" using assms(1) Cons by simp
  from stamps_ascending [OF this le, of 3] show ?thesis using Cons by simp
qed

subsection \<open>Documents of the contract among those with absent members\<close>

text \<open>
  On a document that has all its numbers the lines written for absent members compute
  what the lines written for the contract compute.
\<close>

lemma loosen_reading_simps [simp]:
  "loose_reading.dt (loosen_reading r) = Some (dt r)"
  "loose_reading.feels_like (loosen_reading r) = Some (reading.feels_like r)"
  "loose_reading.wind_speed (loosen_reading r) = Some (wind_speed r)"
  by (simp_all add: loosen_reading_def)

lemma scorersN_Some [simp]:
  "getTempScoreN (Some t) = getTempScore t"
  "getWindScoreN (Some c) = getWindScore c"
  "convertMphToBftN (Some v) = Some (convertMphToBft v)"
  "getOverallScoreN (Some t) (Some c) = getOverallScore t c"
  "roundN (Some t) = Some (round t)"
  "localMillis (Some d) (Some off) = Some ((d + off) * 1000)"
  by (simp_all add: getTempScoreN_def getWindScoreN_def convertMphToBftN_def
      getOverallScoreN_def getOverallScore_def roundN_def localMillis_def)

lemma calmLoopN_loosen:
  assumes "lmt \<le> length hs"
  shows "calmLoopN (Some off) (map loosen_reading hs) lmt i (map_option loosen_reading cand) c =
    calmLoop off hs lmt i cand c"
  using assms
proof (induction "lmt - i" arbitrary: i cand c)
  case 0
  then show ?case
    by (simp add: calmLoopN.simps [of _ _ lmt i] calmLoop.simps [of _ _ lmt i])
next
  case (Suc n)
  then have i: "i < lmt" "i < length hs" by simp_all
  have n: "n = lmt - (i + 1)" using Suc.hyps(2) by simp
  have ih: "calmLoopN (Some off) (map loosen_reading hs) lmt (i + 1)
      (map_option loosen_reading cand') c' = calmLoop off hs lmt (i + 1) cand' c'" for cand' c'
    using n Suc.prems by (intro Suc.hyps(1))
  have ih0: "calmLoopN (Some off) (map loosen_reading hs) lmt (i + 1) None c' =
      calmLoop off hs lmt (i + 1) None c'" for c'
    using ih [of None c'] by simp
  have ihs: "calmLoopN (Some off) (map loosen_reading hs) lmt (i + 1)
      (Some (loosen_reading x)) c' = calmLoop off hs lmt (i + 1) (Some x) c'" for x c'
    using ih [of "Some x" c'] by simp
  show ?case
  proof (cases cand)
    case None
    then show ?thesis
      using i ih0 ihs
      by (simp add: calmLoopN.simps [of _ _ lmt i None c] calmLoop.simps [of _ _ lmt i None c]
          Let_def)
  next
    case (Some x)
    then show ?thesis
      using i ih0 ihs
      by (simp add: calmLoopN.simps [of _ _ lmt i "Some (loosen_reading x)" c]
          calmLoop.simps [of _ _ lmt i "Some x" c] Let_def)
  qed
qed

lemma calmFinderN_loosen:
  "calmFinderN (Some off) (map loosen_reading hs) = calmFinder off hs"
  using calmLoopN_loosen [of "min 36 (length hs)" hs off 0 None 0]
  by (simp add: calmFinderN_def calmFinder_def)

lemma loosen_points_snoc:
  "loosen_points ps @ [(Some t, s)] = loosen_points (ps @ [(t, s)])"
  by (simp add: loosen_points_def)

lemma fold_pushHourN_loosen:
  "fold (pushHourN (Some off)) (map loosen_reading xs)
     (loosen_points od, loosen_points wd, loosen_points td) =
   (case fold (pushHour off) xs (od, wd, td) of
      (od', wd', td') \<Rightarrow> (loosen_points od', loosen_points wd', loosen_points td'))"
  by (induction xs arbitrary: od wd td)
    (simp_all add: pushHourN_def pushHour_def Let_def loosen_points_snoc)

lemma chartDataN_loosen:
  "chartDataN (Some off) (loosen_reading cur) (map loosen_reading hs) =
   (case chartData off cur hs of
      (od, wd, td) \<Rightarrow> (loosen_points od, loosen_points wd, loosen_points td))"
proof -
  have s: "slice1 (map loosen_reading hs) = map loosen_reading (slice1 hs)"
    by (simp add: slice1_def take_map drop_map)
  have t: "currentTimestampN (Some off) (loosen_reading cur) = Some (currentTimestamp off cur)"
    by (simp add: currentTimestampN_def currentTimestamp_def)
  show ?thesis
    using fold_pushHourN_loosen [of off "slice1 hs"
        "[(currentTimestamp off cur,
           getOverallScore (reading.feels_like cur) (convertMphToBft (wind_speed cur)))]"
        "[(currentTimestamp off cur, getWindScore (convertMphToBft (wind_speed cur)))]"
        "[(currentTimestamp off cur, getTempScore (reading.feels_like cur))]"]
    by (simp add: chartDataN_def chartData_def Let_def s t loosen_points_def)
qed

lemma calmPeriodTextN_Some: "calmPeriodTextN (Some off) r = calmPeriodText off r"
  by (simp add: calmPeriodTextN_def calmPeriodText_def split: option.splits)

lemma computeN_loosen:
  "computeN e (loosen_document d) =
   (case compute e d of Inl x \<Rightarrow> Inl x | Inr out \<Rightarrow> Inr (loosen_output out))"
proof (cases "document.current d")
  case None
  then show ?thesis by (simp add: computeN_def compute_def loosen_document_def)
next
  case c: (Some cur)
  show ?thesis
  proof (cases "hourly d")
    case None
    then show ?thesis using c by (simp add: computeN_def compute_def loosen_document_def Let_def)
  next
    case (Some hs)
    then show ?thesis
      using c
      by (simp add: computeN_def compute_def loosen_document_def Let_def chartDataN_loosen
          calmFinderN_loosen calmFinder_spec calmPeriodTextN_Some loosen_output_def
          split: prod.splits)
  qed
qed

subsection \<open>Responses\<close>

text \<open>
  Claim C8. Whenever the API key is absent from the configuration (the variable is
  unset, or set to the empty string, which \<open>!apiKey\<close> treats alike), the handler answers
  with status 500 and the body \<open>{ error: "Missing API Key" }\<close>, and no fetch is
  attempted: the list of fetched URLs is empty.
\<close>

theorem handler_missing_key:
  assumes "OPEN_WEATHER_MAP_API_KEY e = None \<or> OPEN_WEATHER_MAP_API_KEY e = Some []"
  shows "fst (handler e) = \<lparr>status = 500, json = Error ''Missing API Key''\<rparr> \<and>
    fetched (snd (handler e)) = [] \<and> length (fetched (snd (handler e))) = 0"
  using handler_unkeyed [OF assms] by (simp add: missingKey_def)

theorem handler_missing_key_witness:
  "OPEN_WEATHER_MAP_API_KEY example_env_nokey = None \<and>
   fst (handler example_env_nokey) = \<lparr>status = 500, json = Error ''Missing API Key''\<rparr> \<and>
   fetched (snd (handler example_env_nokey)) = []"
proof -
  have k: "OPEN_WEATHER_MAP_API_KEY example_env_nokey = None"
    by (simp add: example_env_nokey_def)
  then have "OPEN_WEATHER_MAP_API_KEY example_env_nokey = None \<or>
      OPEN_WEATHER_MAP_API_KEY example_env_nokey = Some []" by simp
  from handler_missing_key [OF this] k show ?thesis by simp
qed




text \<open>
  Claim C2, amended. For every response to a document with a current record and an
  hourly sequence: the three chart series (overall, wind, temp) carry the same
  timestamps, the start of the current hour followed by \<open>(dt + timezone_offset) * 1000\<close>,
  untruncated, for the hourly entries 1 to 3 (entry 0 is skipped); each series has
  \<open>1 + min 3 (length hourly - 1)\<close> points, hence 4 when there are at least 3 forecast
  hours beyond index 0; the first timestamp is the current one truncated down to the
  start of its hour, with zero minutes, seconds and milliseconds. The timestamps are
  strictly ascending whenever the input is as the data model has it: the \<open>dt\<close> of the
  hourly entries 0 to 3 strictly ascending, and entry 0 in the same local hour as the
  current record. The handler does not sort, so on other inputs the series keep the
  order of the input.
\<close>

theorem chart_series:
  assumes "OPEN_WEATHER_MAP_API_KEY e = Some k" "k \<noteq> []" "fetch e (url_of k) = Json data"
    "document.current data = Some cur" "hourly data = Some hs"
  shows "status (fst (handler e)) = 200 \<and> is_Payload (json (fst (handler e))) \<and>
    (let out = payload (json (fst (handler e)));
         off = timezone_offset data;
         t0 = currentTimestamp off cur;
         stamps = t0 # map (\<lambda>h. (dt h + off) * 1000) (take 3 (drop 1 hs))
     in map fst (overall (chart_data out)) = stamps \<and>
        map fst (wind (chart_data out)) = stamps \<and>
        map fst (temp (chart_data out)) = stamps \<and>
        length stamps = 1 + min 3 (length hs - 1) \<and>
        (4 \<le> length hs \<longrightarrow> length stamps = 4) \<and>
        t0 mod 3600000 = 0 \<and> getMinutes (Date t0) = 0 \<and> (t0 div 1000) mod 60 = 0 \<and>
        t0 mod 1000 = 0 \<and>
        t0 \<le> (dt cur + off) * 1000 \<and> (dt cur + off) * 1000 < t0 + 3600000 \<and>
        (sorted_wrt (<) (map dt (take 4 hs)) \<and>
         (dt cur + off) div 3600 = (dt (hs ! 0) + off) div 3600 \<longrightarrow>
         sorted_wrt (<) stamps))"
proof -
  let ?off = "timezone_offset data"
  let ?t0 = "currentTimestamp ?off cur"
  let ?stamps = "?t0 # map (\<lambda>h. (dt h + ?off) * 1000) (take 3 (drop 1 hs))"
  let ?out = "payload (json (fst (handler e)))"
  note ok = handler_ok_status [OF assms]
  note cd = handler_ok_chart [OF assms]
  have s1: "map fst (overall (chart_data ?out)) = ?stamps"
    and s2: "map fst (wind (chart_data ?out)) = ?stamps"
    and s3: "map fst (temp (chart_data ?out)) = ?stamps"
    unfolding cd chartData_series
    by (simp_all add: comp_def slice1_def hoursToDisplay_def split_def)
  have len: "length ?stamps = 1 + min 3 (length hs - 1)" by simp
  have len4: "4 \<le> length hs \<longrightarrow> length ?stamps = 4" by auto
  note hr = currentTimestamp_hour [where off = ?off and cur = cur]
  note z = hour_multiple [OF hr(1)]
  have asc: "sorted_wrt (<) (map dt (take 4 hs)) \<and>
      (dt cur + ?off) div 3600 = (dt (hs ! 0) + ?off) div 3600 \<longrightarrow> sorted_wrt (<) ?stamps"
  proof
    assume a: "sorted_wrt (<) (map dt (take 4 hs)) \<and>
      (dt cur + ?off) div 3600 = (dt (hs ! 0) + ?off) div 3600"
    from a have a1: "sorted_wrt (<) (map dt (take 4 hs))" by (rule conjunct1)
    from a have a2: "(dt cur + ?off) div 3600 = (dt (hs ! 0) + ?off) div 3600" by (rule conjunct2)
    from a1 a2 show "sorted_wrt (<) ?stamps" by (rule stamps_from_invariant)
  qed
  show ?thesis
    unfolding Let_def
    by (intro conjI; fact ok s1 s2 s3 len len4 hr z asc)
qed

theorem chart_series_witness:
  "status (fst (handler example_env)) = 200 \<and> is_Payload (json (fst (handler example_env))) \<and>
   map fst (overall (chart_data (payload (json (fst (handler example_env)))))) =
     [28800000, 32400000, 36000000, 39600000] \<and>
   map fst (wind (chart_data (payload (json (fst (handler example_env)))))) =
     [28800000, 32400000, 36000000, 39600000] \<and>
   map fst (temp (chart_data (payload (json (fst (handler example_env)))))) =
     [28800000, 32400000, 36000000, 39600000] \<and>
   sorted_wrt (<) (map dt (take 4 example_morning)) \<and>
   (29400 + 0) div 3600 = (dt (example_morning ! 0) + 0) div (3600 :: int) \<and>
   sorted_wrt (<) [28800000, 32400000, 36000000, 39600000 :: int]"
proof -
  let ?cur = "\<lparr>dt = 29400, feels_like = 72, wind_speed = 9\<rparr>"
  have "OPEN_WEATHER_MAP_API_KEY example_env = Some ''k''" "''k'' \<noteq> []"
    "fetch example_env (url_of ''k'') = Json example_document"
    "document.current example_document = Some ?cur"
    "hourly example_document = Some example_morning"
    by (simp_all add: example_env_def example_document_def)
  note w = chart_series [OF this, unfolded Let_def]
  have off: "timezone_offset example_document = 0" by (simp add: example_document_def)
  have t0: "currentTimestamp 0 ?cur = 28800000" by code_simp
  have st: "map (\<lambda>h. (dt h + 0) * 1000) (take 3 (drop 1 example_morning)) =
      [32400000, 36000000, 39600000]" by code_simp
  have so: "sorted_wrt (<) (map dt (take 4 example_morning))" by code_simp
  have sh: "(29400 + 0) div 3600 = (dt (example_morning ! 0) + 0) div (3600 :: int)" by code_simp
  then have sh': "(dt ?cur + 0) div 3600 = (dt (example_morning ! 0) + 0) div 3600" by simp
  note w' = w [unfolded off t0 st]
  from w' have i: "sorted_wrt (<) (map dt (take 4 example_morning)) \<and>
      (dt ?cur + 0) div 3600 = (dt (example_morning ! 0) + 0) div 3600 \<longrightarrow>
      sorted_wrt (<) [28800000, 32400000, 36000000, 39600000 :: int]"
    by (elim conjE)
  from so sh' have "sorted_wrt (<) (map dt (take 4 example_morning)) \<and>
      (dt ?cur + 0) div 3600 = (dt (example_morning ! 0) + 0) div 3600" by (rule conjI)
  with i have s: "sorted_wrt (<) [28800000, 32400000, 36000000, 39600000 :: int]" by (rule mp)
  from w' have c1: "status (fst (handler example_env)) = 200" by (elim conjE)
  from w' have c2: "is_Payload (json (fst (handler example_env)))" by (elim conjE)
  from w' have c3: "map fst (overall (chart_data (payload (json (fst (handler example_env)))))) =
     [28800000, 32400000, 36000000, 39600000]" by (elim conjE)
  from w' have c4: "map fst (wind (chart_data (payload (json (fst (handler example_env)))))) =
     [28800000, 32400000, 36000000, 39600000]" by (elim conjE)
  from w' have c5: "map fst (temp (chart_data (payload (json (fst (handler example_env)))))) =
     [28800000, 32400000, 36000000, 39600000]" by (elim conjE)
  show ?thesis by (intro conjI c1 c2 c3 c4 c5 so sh s)
qed

theorem unsorted_chart_counterexample:
  "fetch example_env_unsorted (url_of ''k'') =
     Json (example_document\<lparr>hourly := Some example_unsorted\<rparr>) \<and>
   length example_unsorted = 4 \<and>
   status (fst (handler example_env_unsorted)) = 200 \<and>
   map fst (overall (chart_data (payload (json (fst (handler example_env_unsorted)))))) =
     [28800000, 36000000, 32400000, 39600000] \<and>
   \<not> sorted_wrt (<)
     (map fst (overall (chart_data (payload (json (fst (handler example_env_unsorted)))))))"
proof -
  have a: "fetch example_env_unsorted (url_of ''k'') =
     Json (example_document\<lparr>hourly := Some example_unsorted\<rparr>)"
    by (simp add: example_env_unsorted_def)
  have b: "length example_unsorted = 4" by (simp add: example_unsorted_def)
  have c: "status (fst (handler example_env_unsorted)) = 200" by code_simp
  have d: "map fst (overall (chart_data (payload (json (fst (handler example_env_unsorted)))))) =
     [28800000, 36000000, 32400000, 39600000]" by code_simp
  have e: "\<not> sorted_wrt (<)
     (map fst (overall (chart_data (payload (json (fst (handler example_env_unsorted)))))))"
    unfolding d by simp
  show ?thesis by (intro conjI a b c d e)
qed

text \<open>
  Claim C6. For every temperature and wind-force class the overall score is the
  minimum of the temperature score and the wind score, so it exceeds neither. In every
  response to a document with a current record and an hourly sequence this holds of the
  current-conditions scores, which are the scorers' values for the current record, and
  at every point of the chart series, whose scores are the scorers' values for the
  current record and the hourly entries 1 to 3.
\<close>

theorem overall_score_min:
  "getOverallScore t c = min (getTempScore t) (getWindScore c) \<and>
   getOverallScore t c \<le> getTempScore t \<and> getOverallScore t c \<le> getWindScore c \<and>
   (OPEN_WEATHER_MAP_API_KEY e = Some k \<and> k \<noteq> [] \<and> fetch e (url_of k) = Json data \<and>
    document.current data = Some cur \<and> hourly data = Some hs \<longrightarrow>
    (let out = payload (json (fst (handler e)));
         pts = cur # take 3 (drop 1 hs);
         bft = (\<lambda>h. convertMphToBft (wind_speed h))
     in temp_score (weather_output.current out) = getTempScore (reading.feels_like cur) \<and>
        wind_score (weather_output.current out) = getWindScore (bft cur) \<and>
        overall_score (weather_output.current out) =
          min (temp_score (weather_output.current out)) (wind_score (weather_output.current out)) \<and>
        map snd (temp (chart_data out)) = map (\<lambda>h. getTempScore (reading.feels_like h)) pts \<and>
        map snd (wind (chart_data out)) = map (\<lambda>h. getWindScore (bft h)) pts \<and>
        map snd (overall (chart_data out)) =
          map (\<lambda>h. min (getTempScore (reading.feels_like h)) (getWindScore (bft h))) pts \<and>
        (\<forall>i<length pts.
           snd (overall (chart_data out) ! i) =
             min (snd (temp (chart_data out) ! i)) (snd (wind (chart_data out) ! i)) \<and>
           snd (overall (chart_data out) ! i) \<le> snd (temp (chart_data out) ! i) \<and>
           snd (overall (chart_data out) ! i) \<le> snd (wind (chart_data out) ! i))))"
  (is "_ \<and> _ \<and> _ \<and> (?doc \<longrightarrow> ?scores)")
proof -
  have fn: "getOverallScore t c = min (getTempScore t) (getWindScore c)"
    "getOverallScore t c \<le> getTempScore t" "getOverallScore t c \<le> getWindScore c"
    by (simp_all add: getOverallScore_def)
  have resp: ?scores
    if a: "OPEN_WEATHER_MAP_API_KEY e = Some k" "k \<noteq> []" "fetch e (url_of k) = Json data"
      "document.current data = Some cur" "hourly data = Some hs"
  proof -
    let ?out = "payload (json (fst (handler e)))"
    let ?pts = "cur # take 3 (drop 1 hs)"
    let ?bft = "\<lambda>h. convertMphToBft (wind_speed h)"
    note cs = handler_ok_current [OF a]
    note cd = handler_ok_chart [OF a]
    have c1: "temp_score (weather_output.current ?out) = getTempScore (reading.feels_like cur)"
      by (rule cs(3))
    have c2: "wind_score (weather_output.current ?out) = getWindScore (?bft cur)"
      by (rule cs(2))
    have c3: "overall_score (weather_output.current ?out) =
        min (temp_score (weather_output.current ?out)) (wind_score (weather_output.current ?out))"
      by (simp only: cs getOverallScore_def)
    have t: "map snd (temp (chart_data ?out)) = map (\<lambda>h. getTempScore (reading.feels_like h)) ?pts"
      by (simp only: cd chartData_scores)
    have w: "map snd (wind (chart_data ?out)) = map (\<lambda>h. getWindScore (?bft h)) ?pts"
      by (simp only: cd chartData_scores)
    have o: "map snd (overall (chart_data ?out)) =
        map (\<lambda>h. min (getTempScore (reading.feels_like h)) (getWindScore (?bft h))) ?pts"
      by (simp only: cd chartData_scores getOverallScore_def)
    have pt: "snd (overall (chart_data ?out) ! i) =
             min (snd (temp (chart_data ?out) ! i)) (snd (wind (chart_data ?out) ! i)) \<and>
           snd (overall (chart_data ?out) ! i) \<le> snd (temp (chart_data ?out) ! i) \<and>
           snd (overall (chart_data ?out) ! i) \<le> snd (wind (chart_data ?out) ! i)"
      if i: "i < length ?pts" for i
    proof -
      have lo: "i < length (overall (chart_data ?out))"
        using i arg_cong [OF o, of length] by simp
      have lt: "i < length (temp (chart_data ?out))"
        using i arg_cong [OF t, of length] by simp
      have lw: "i < length (wind (chart_data ?out))"
        using i arg_cong [OF w, of length] by simp
      have "snd (overall (chart_data ?out) ! i) = map snd (overall (chart_data ?out)) ! i"
        using lo by simp
      also have "\<dots> = min (getTempScore (reading.feels_like (?pts ! i))) (getWindScore (?bft (?pts ! i)))"
        unfolding o using i by (simp only: nth_map)
      also have "getTempScore (reading.feels_like (?pts ! i)) = map snd (temp (chart_data ?out)) ! i"
        unfolding t using i by (simp only: nth_map)
      also have "\<dots> = snd (temp (chart_data ?out) ! i)" using lt by simp
      also have "getWindScore (?bft (?pts ! i)) = map snd (wind (chart_data ?out)) ! i"
        unfolding w using i by (simp only: nth_map)
      also have "\<dots> = snd (wind (chart_data ?out) ! i)" using lw by simp
      finally show ?thesis by simp
    qed
    then have al: "\<forall>i<length ?pts.
           snd (overall (chart_data ?out) ! i) =
             min (snd (temp (chart_data ?out) ! i)) (snd (wind (chart_data ?out) ! i)) \<and>
           snd (overall (chart_data ?out) ! i) \<le> snd (temp (chart_data ?out) ! i) \<and>
           snd (overall (chart_data ?out) ! i) \<le> snd (wind (chart_data ?out) ! i)"
      by (intro allI impI)
    show ?thesis unfolding Let_def by (intro conjI; fact c1 c2 c3 t w o al)
  qed
  show ?thesis
  proof (intro conjI impI)
    assume ?doc
    then have "OPEN_WEATHER_MAP_API_KEY e = Some k" "k \<noteq> []" "fetch e (url_of k) = Json data"
      "document.current data = Some cur" "hourly data = Some hs" by simp_all
    then show ?scores by (rule resp)
  qed (fact fn)+
qed


theorem overall_score_min_witness:
  "overall_score (weather_output.current (payload (json (fst (handler example_env))))) =
     min (temp_score (weather_output.current (payload (json (fst (handler example_env))))))
       (wind_score (weather_output.current (payload (json (fst (handler example_env)))))) \<and>
   temp_score (weather_output.current (payload (json (fst (handler example_env))))) = 4 \<and>
   wind_score (weather_output.current (payload (json (fst (handler example_env))))) = 3 \<and>
   map snd (overall (chart_data (payload (json (fst (handler example_env)))))) = [3, 5, 5, 5]"
proof -
  let ?cur = "\<lparr>dt = 29400, feels_like = 72, wind_speed = 9\<rparr>"
  let ?out = "payload (json (fst (handler example_env)))"
  have d: "OPEN_WEATHER_MAP_API_KEY example_env = Some ''k'' \<and> ''k'' \<noteq> [] \<and>
    fetch example_env (url_of ''k'') = Json example_document \<and>
    document.current example_document = Some ?cur \<and>
    hourly example_document = Some example_morning"
    by (simp add: example_env_def example_document_def)
  note w = overall_score_min [of 72 3 example_env "''k''" example_document ?cur example_morning,
      THEN conjunct2, THEN conjunct2, THEN conjunct2, THEN mp, OF d, unfolded Let_def]
  have t: "getTempScore (reading.feels_like ?cur) = 4" by code_simp
  have v: "getWindScore (convertMphToBft (wind_speed ?cur)) = 3" by code_simp
  have o: "map (\<lambda>h. min (getTempScore (reading.feels_like h))
                 (getWindScore (convertMphToBft (wind_speed h))))
            (?cur # take 3 (drop 1 example_morning)) = [3, 5, 5, 5]" by code_simp
  from w have c1: "overall_score (weather_output.current ?out) =
          min (temp_score (weather_output.current ?out)) (wind_score (weather_output.current ?out))"
    by (elim conjE)
  from w have c2: "temp_score (weather_output.current ?out) = 4" unfolding t by (elim conjE)
  from w have c3: "wind_score (weather_output.current ?out) = 3" unfolding v by (elim conjE)
  from w have c4: "map snd (overall (chart_data ?out)) = [3, 5, 5, 5]" unfolding o by (elim conjE)
  show ?thesis by (intro conjI c1 c2 c3 c4)
qed

text \<open>
  Claim C7. In every response to a document with a current record and an hourly
  sequence, the field \<open>calm_period\<close> is the string \<open>--\<close> exactly when the finder's scan of
  the first \<open>min 36 (length hourly)\<close> entries yields no qualifying window; otherwise it is
  the 12-hour text \<open>H:MMam/pm\<close> (hour 0 written as 12, minutes on two digits) of the
  local time of day of the window's start, the start's epoch second shifted by
  \<open>timezone_offset\<close>.
\<close>

theorem calm_period_text:
  assumes "OPEN_WEATHER_MAP_API_KEY e = Some k" "k \<noteq> []" "fetch e (url_of k) = Json data"
    "document.current data = Some cur" "hourly data = Some hs"
  shows "let out = payload (json (fst (handler e))); off = timezone_offset data
    in \<exists>found. calmFinder off hs = Inr found \<and>
         found = spec_calm_search off (take (min 36 (length hs)) hs) \<and>
         ((calm_period out = ''--'') = (found = None)) \<and>
         (\<forall>start. found = Some start \<longrightarrow>
            calm_period out = spec_clock12 (localHour off start) (localMinute off start))"
proof -
  let ?out = "payload (json (fst (handler e)))"
  let ?off = "timezone_offset data"
  let ?found = "spec_calm_search ?off (take 36 hs)"
  have t: "take (min 36 (length hs)) hs = take 36 hs" by (simp add: min_def)
  have cp: "calm_period ?out = calmPeriodText ?off ?found" by (rule handler_ok_calm [OF assms])
  have f: "calmFinder ?off hs = Inr ?found" by (rule calmFinder_spec)
  have none: "(calm_period ?out = ''--'') = (?found = None)"
  proof (cases ?found)
    case None
    then show ?thesis by (simp add: cp calmPeriodText_def)
  next
    case (Some start)
    then show ?thesis
      by (simp only: cp calmPeriodText_def option.case formatTime_spec_clock12
          spec_clock12_not_dashes) simp
  qed
  have some: "calm_period ?out = spec_clock12 (localHour ?off start) (localMinute ?off start)"
    if "?found = Some start" for start
    using that by (simp only: cp calmPeriodText_def option.case formatTime_spec_clock12)
  have "calmFinder ?off hs = Inr ?found \<and> ?found = spec_calm_search ?off (take (min 36 (length hs)) hs) \<and>
         ((calm_period ?out = ''--'') = (?found = None)) \<and>
         (\<forall>start. ?found = Some start \<longrightarrow>
            calm_period ?out = spec_clock12 (localHour ?off start) (localMinute ?off start))"
    using f t none some by simp
  then show ?thesis unfolding Let_def by (rule exI)
qed

theorem calm_period_text_witness:
  "calmFinder 0 example_morning = Inr (Some 28800) \<and>
   calm_period (payload (json (fst (handler example_env)))) = ''8:00am'' \<and>
   calmFinder 0 example_night = Inr None \<and>
   calm_period (payload (json (fst (handler example_env_night)))) = ''--''"
proof -
  let ?cur = "\<lparr>dt = 29400, feels_like = 72, wind_speed = 9\<rparr>"
  have m: "calmFinder 0 example_morning = Inr (Some 28800)" by code_simp
  have n: "calmFinder 0 example_night = Inr None" by code_simp
  have c: "spec_clock12 (localHour 0 28800) (localMinute 0 28800) = ''8:00am''" by code_simp
  have "OPEN_WEATHER_MAP_API_KEY example_env = Some ''k''" "''k'' \<noteq> []"
    "fetch example_env (url_of ''k'') = Json example_document"
    "document.current example_document = Some ?cur"
    "hourly example_document = Some example_morning"
    by (simp_all add: example_env_def example_document_def)
  from calm_period_text [OF this]
  have a: "calm_period (payload (json (fst (handler example_env)))) = ''8:00am''"
    using m c by (auto simp add: Let_def example_document_def)
  have "OPEN_WEATHER_MAP_API_KEY example_env_night = Some ''k''" "''k'' \<noteq> []"
    "fetch example_env_night (url_of ''k'') = Json (example_document\<lparr>hourly := Some example_night\<rparr>)"
    "document.current (example_document\<lparr>hourly := Some example_night\<rparr>) = Some ?cur"
    "hourly (example_document\<lparr>hourly := Some example_night\<rparr>) = Some example_night"
    by (simp_all add: example_env_night_def example_env_def example_document_def)
  from calm_period_text [OF this]
  have b: "calm_period (payload (json (fst (handler example_env_night)))) = ''--''"
    using n by (auto simp add: Let_def example_document_def)
  show ?thesis by (intro conjI m a n b)
qed

end
